theory Spec2Isabelle
  imports Main "HOL-Library.Sublist"
begin

section \<open>Python text\<close>

text \<open>
  A Python \<open>str\<close> is modelled as a \<open>string\<close> holding the bytes of its UTF-8 encoding, so
  ASCII text is character for character what the source writes, and the two marks that
  \<open>main\<close> prints are three bytes each.
\<close>

definition sq :: char where "sq = CHR 0x27"
definition dq :: char where "dq = CHR 0x22"
definition bslash :: char where "bslash = CHR 0x5C"

text \<open>\<open>str(n)\<close> for an \<open>int\<close>: decimal digits, with a minus sign for negative numbers.\<close>

definition digit_char :: "nat \<Rightarrow> char" where
  "digit_char d = char_of (48 + d)"

fun nat_str :: "nat \<Rightarrow> string" where
  "nat_str n = (if n < 10 then [digit_char n] else nat_str (n div 10) @ [digit_char (n mod 10)])"

declare nat_str.simps [simp del]

definition py_int_str :: "int \<Rightarrow> string" where
  "py_int_str i = (if i < 0 then CHR ''-'' # nat_str (nat (- i)) else nat_str (nat i))"

text \<open>
  \<open>str.strip()\<close> removes leading and trailing whitespace. The whitespace characters of
  Python are the ASCII ones (code points 9 to 13, 28 to 31 and 32) and the Unicode
  spaces U+0085, U+00A0, U+1680, U+2000 to U+200A, U+2028, U+2029, U+202F, U+205F and
  U+3000, which are two or three bytes in UTF-8.
\<close>

definition ascii_space :: "char \<Rightarrow> bool" where
  "ascii_space c = (let n = (of_char c :: nat) in (9 \<le> n \<and> n \<le> 13) \<or> (28 \<le> n \<and> n \<le> 32))"

definition e2_80_space :: "char \<Rightarrow> bool" where
  "e2_80_space c = (let n = (of_char c :: nat) in (128 \<le> n \<and> n \<le> 138) \<or> n = 168 \<or> n = 169 \<or> n = 175)"

fun lstrip :: "string \<Rightarrow> string" where
  "lstrip [] = []"
| "lstrip (c # cs) =
     (if ascii_space c then lstrip cs
      else if c = CHR 0xC2 then
        (case cs of d # ds \<Rightarrow> if d = CHR 0x85 \<or> d = CHR 0xA0 then lstrip ds else c # cs
                  | [] \<Rightarrow> c # cs)
      else if c = CHR 0xE1 then
        (case cs of d # e # es \<Rightarrow> if d = CHR 0x9A \<and> e = CHR 0x80 then lstrip es else c # cs
                  | _ \<Rightarrow> c # cs)
      else if c = CHR 0xE2 then
        (case cs of d # e # es \<Rightarrow>
              if (d = CHR 0x80 \<and> e2_80_space e) \<or> (d = CHR 0x81 \<and> e = CHR 0x9F)
              then lstrip es else c # cs
                  | _ \<Rightarrow> c # cs)
      else if c = CHR 0xE3 then
        (case cs of d # e # es \<Rightarrow> if d = CHR 0x80 \<and> e = CHR 0x80 then lstrip es else c # cs
                  | _ \<Rightarrow> c # cs)
      else c # cs)"

text \<open>The same from the right, on the reversed text: each multi-byte space is met last byte first.\<close>

fun rstrip_rev :: "string \<Rightarrow> string" where
  "rstrip_rev [] = []"
| "rstrip_rev (c # cs) =
     (if ascii_space c then rstrip_rev cs
      else case cs of
        d # ds \<Rightarrow>
          if d = CHR 0xC2 \<and> (c = CHR 0x85 \<or> c = CHR 0xA0) then rstrip_rev ds
          else (case ds of
            e # es \<Rightarrow>
              if (e = CHR 0xE1 \<and> d = CHR 0x9A \<and> c = CHR 0x80)
               \<or> (e = CHR 0xE2 \<and> d = CHR 0x80 \<and> e2_80_space c)
               \<or> (e = CHR 0xE2 \<and> d = CHR 0x81 \<and> c = CHR 0x9F)
               \<or> (e = CHR 0xE3 \<and> d = CHR 0x80 \<and> c = CHR 0x80)
              then rstrip_rev es else c # cs
          | [] \<Rightarrow> c # cs)
      | [] \<Rightarrow> c # cs)"

definition py_strip :: "string \<Rightarrow> string" where
  "py_strip s = rev (rstrip_rev (rev (lstrip s)))"

text \<open>\<open>s.startswith(p)\<close> is \<open>prefix p s\<close>; \<open>sub in s\<close> is a search for a contiguous occurrence.\<close>

definition startswith :: "string \<Rightarrow> string \<Rightarrow> bool" where
  "startswith s p = prefix p s"

fun py_in :: "string \<Rightarrow> string \<Rightarrow> bool" where
  "py_in sub [] = (sub = [])"
| "py_in sub (c # cs) = (prefix sub (c # cs) \<or> py_in sub cs)"

text \<open>
  \<open>s.split(sep, 1)\<close> cuts \<open>s\<close> at the first occurrence of \<open>sep\<close>: the result has two
  elements when \<open>sep\<close> occurs and one when it does not. \<open>split1\<close> returns the text before
  and the text after the first occurrence, if any.
\<close>

fun split1 :: "string \<Rightarrow> string \<Rightarrow> (string \<times> string) option" where
  "split1 sep [] = (if sep = [] then Some ([], []) else None)"
| "split1 sep (c # cs) =
     (if prefix sep (c # cs) then Some ([], drop (length sep) (c # cs))
      else case split1 sep cs of
             None \<Rightarrow> None
           | Some (before, rest) \<Rightarrow> Some (c # before, rest))"


section \<open>Python values\<close>

text \<open>
  The values that workloads receive and return: \<open>None\<close>, booleans, integers, strings,
  lists and dictionaries with string keys (in insertion order). \<open>PObject l\<close> is any other
  object, told apart by the label \<open>l\<close>.
\<close>

datatype pyval =
    PNone
  | PBool bool
  | PInt int
  | PStr string
  | PList "pyval list"
  | PDict "(string \<times> pyval) list"
  | PObject string

section \<open>The profiler's data\<close>

text \<open>
  An exception is represented by what the handlers of the source look at: whether it is
  a \<open>subprocess.TimeoutExpired\<close>, whether it is an \<open>Exception\<close> at all, and the text
  \<open>str(e)\<close>. \<open>BaseException m\<close> is an exception that is not an \<open>Exception\<close>
  (\<open>SystemExit\<close>, \<open>KeyboardInterrupt\<close>): \<open>except Exception\<close> lets it pass, a bare
  \<open>except\<close> catches it.
\<close>

datatype exn = TimeoutExpired string | Exception string | BaseException string

fun str_exn :: "exn \<Rightarrow> string" where
  "str_exn (TimeoutExpired m) = m"
| "str_exn (Exception m) = m"
| "str_exn (BaseException m) = m"

fun is_exception :: "exn \<Rightarrow> bool" where
  "is_exception (TimeoutExpired m) = True"
| "is_exception (Exception m) = True"
| "is_exception (BaseException m) = False"

datatype 'a outcome = Returned 'a | Raised exn

text \<open>One entry of \<open>self.functions\<close>.\<close>

record function_info =
  name :: string
  category :: string
  function_path :: string
  input_path :: string

text \<open>The profiler object: \<open>self.functions\<close> (here \<open>funcs\<close>) and \<open>self.correct_inputs\<close>.\<close>

record profiler =
  funcs :: "function_info list"
  correct_inputs :: "string \<rightharpoonup> pyval"

text \<open>
  The dictionary a profiling call returns. A key that the dictionary does not have is
  \<open>None\<close> here; \<open>error\<close> is always present and is Python's \<open>None\<close> or a string, and
  \<open>function_result\<close>, when present, is a value (\<open>Some PNone\<close> is Python's \<open>None\<close>).
  \<open>res_stdout\<close> and \<open>res_stderr\<close> are the keys \<open>'stdout'\<close> and \<open>'stderr'\<close>.
  \<open>input_data\<close> is the content of the recorded dictionary when the call returns.
\<close>

record profile_result =
  function_name :: string
  profiling_mode :: string
  success :: bool
  function_result :: "pyval option"
  error :: "string option"
  input_data :: pyval
  strace_file :: "string option"
  strace_summary_file :: "string option"
  strace_full_file :: "string option"
  res_stdout :: "string option"
  res_stderr :: "string option"

text \<open>What \<open>subprocess.run\<close> returns with \<open>capture_output=True, text=True\<close>.\<close>

record completed_process =
  returncode :: int
  stdout :: string
  stderr :: string

text \<open>
  The local variables of \<open>profile_full_python\<close> at line 225, where \<open>eval\<close> runs: the
  expression it evaluates may name any of them (\<open>function_result\<close> and \<open>error_msg\<close> are
  \<open>None\<close> there).
\<close>

record frame =
  loc_self :: profiler
  loc_function_info :: function_info
  loc_function_path :: string
  loc_function_name :: string
  loc_input_data :: pyval
  loc_strace_summary_file :: string
  loc_strace_full_file :: string
  loc_script_content :: string
  loc_temp_script_path :: string
  loc_strace_summary_cmd :: "string list"
  loc_result_summary :: completed_process
  loc_strace_full_cmd :: "string list"
  loc_result_full :: completed_process
  loc_output_line :: string

text \<open>
  The builtins of the interpreter that runs the profiler, as far as the source calls
  them on values: \<open>str\<close> (through the f-strings), \<open>repr\<close> and \<open>eval\<close>. \<open>str\<close> and
  \<open>repr\<close> return a text or raise; \<open>eval\<close> returns a value or raises (\<open>None\<close>), and
  what else it does to the world is outside the model. The theorems hold for every such
  interpreter.
\<close>

record interp =
  py_str :: "pyval \<Rightarrow> string outcome"
  py_repr :: "pyval \<Rightarrow> string outcome"
  py_eval :: "frame \<Rightarrow> string \<Rightarrow> pyval option"

text \<open>What a call does to the world, in order.\<close>

datatype effect =
    Print string
  | Popen "string list"
  | Sleep nat
  | LoadAndCall string pyval
  | SendSigint
  | Wait nat
  | Poll
  | Terminate
  | MakeTemp string
  | WriteScript string string
  | Run "string list" nat
  | Unlink string

section \<open>Workload discovery and input selection\<close>

fun join :: "string \<Rightarrow> string list \<Rightarrow> string" where
  "join sep [] = []"
| "join sep [x] = x"
| "join sep (x # y # ys) = x @ sep @ join sep (y # ys)"

text \<open>
  \<open>_discover_functions\<close>, given what \<open>rglob\<close> finds: each path as its \<open>parts\<close>.
\<close>

definition discover_functions :: "string list list \<Rightarrow> function_info list" where
  "discover_functions found =
     map (\<lambda>parts. \<lparr>name = parts ! 2, category = parts ! 1,
                    function_path = join ''/'' parts,
                    input_path = join ''/'' (butlast parts @ [''input.py''])\<rparr>)
         (filter (\<lambda>parts. length parts \<ge> 4) found)"

definition correct_inputs_table :: "(string \<times> pyval) list" where
  "correct_inputs_table =
     [(''110.dynamic-html'', PDict [(''username'', PStr ''testuser''), (''random_len'', PInt 10)]),
      (''130.crud-api'', PDict [(''action'', PStr ''get''), (''id'', PStr ''1'')]),
      (''210.thumbnailer'', PDict [(''image'', PStr ''test.jpg''), (''size'', PInt 100)]),
      (''220.video-processing'', PDict [(''video'', PStr ''test.mp4'')]),
      (''311.compression'', PDict [(''text'', PStr ''Hello World'')]),
      (''411.image-recognition'', PDict [(''image'', PStr ''test.jpg'')]),
      (''503.graph-bfs'', PDict [(''size'', PInt 10)]),
      (''501.graph-pagerank'', PDict [(''size'', PInt 10)]),
      (''504.dna-visualisation'', PDict [(''sequence'', PStr ''ATCGATCG'')]),
      (''502.graph-mst'', PDict [(''size'', PInt 10)]),
      (''020.network-benchmark'', PDict [(''port'', PInt 8080)]),
      (''030.clock-synchronization'', PDict [(''time'', PStr ''12:00:00'')]),
      (''040.server-reply'', PDict [(''message'', PStr ''hello'')]),
      (''010.sleep'', PDict [(''sleep_time'', PInt 1)]),
      (''120.uploader'', PDict [(''file'', PStr ''test.txt''), (''content'', PStr ''hello world'')])]"

text \<open>\<open>TrueRuntimeProfiler.__init__\<close>.\<close>

definition init :: "string list list \<Rightarrow> profiler" where
  "init found = \<lparr>funcs = discover_functions found,
                 correct_inputs = map_of correct_inputs_table\<rparr>"

text \<open>
  \<open>_get_input_for_function\<close>: \<open>dict.get\<close> with a default. For a name in the table the
  result is the table's own dictionary; for another name it is a new dictionary.
\<close>

definition get_input_for_function :: "profiler \<Rightarrow> string \<Rightarrow> pyval" where
  "get_input_for_function self fname =
     (case correct_inputs self fname of
        Some v \<Rightarrow> v
      | None \<Rightarrow> PDict [(''data'', PStr ''test'')])"

text \<open>
  A handler may change the dictionary it is given. \<open>store_input\<close> is what that does to
  the profiler: the table's entry, when the name has one, is the changed dictionary.
\<close>

definition store_input :: "profiler \<Rightarrow> string \<Rightarrow> pyval \<Rightarrow> profiler" where
  "store_input self fname input' =
     (case correct_inputs self fname of
        Some v \<Rightarrow> self\<lparr>correct_inputs := (correct_inputs self)(fname \<mapsto> input')\<rparr>
      | None \<Rightarrow> self)"

section \<open>Attach mode\<close>

text \<open>
  What the world answers during one call of \<open>profile_function_in_runtime\<close>:
  the process id; whether \<open>Popen\<close> starts the collector; what loading the module at a
  path and calling its handler on a dictionary does, that is what is returned or raised
  and what the dictionary holds afterwards; whether \<open>wait(timeout=10)\<close> returns; and
  whether the collector is still running when the cleanup block polls it after a wait
  that did not return (after a wait that returned, \<open>poll\<close> gives the exit status).
\<close>

record runtime_env =
  getpid :: nat
  popen :: "unit outcome"
  load_and_call :: "string \<Rightarrow> pyval \<Rightarrow> pyval outcome \<times> pyval"
  sigint_wait :: "unit outcome"
  poll_running :: bool

definition mode_str_of :: "bool \<Rightarrow> string" where
  "mode_str_of summary = (if summary then ''summary'' else ''full'')"

definition runtime_file_of :: "string \<Rightarrow> bool \<Rightarrow> string" where
  "runtime_file_of fname summary =
     (if summary then ''runtime_summary_'' @ fname @ ''.txt''
      else ''runtime_full_'' @ fname @ ''.txt'')"

definition runtime_cmd_of :: "nat \<Rightarrow> string \<Rightarrow> bool \<Rightarrow> string list" where
  "runtime_cmd_of current_pid fname summary =
     (if summary
      then [''strace'', ''-c'', ''-p'', py_int_str (int current_pid), ''-o'', runtime_file_of fname summary]
      else [''strace'', ''-p'', py_int_str (int current_pid), ''-o'', runtime_file_of fname summary])"

definition runtime_head :: "function_info \<Rightarrow> bool \<Rightarrow> effect list" where
  "runtime_head info summary =
     [Print (''=== Profiling '' @ name info @ '' in current runtime ('' @ mode_str_of summary @ '') ===''),
      Print (''Function path: '' @ function_path info)]"

definition runtime_failure :: "string \<Rightarrow> string \<Rightarrow> pyval \<Rightarrow> string \<Rightarrow> profile_result" where
  "runtime_failure fname mode_str input msg =
     \<lparr>function_name = fname, profiling_mode = ''runtime_'' @ mode_str, success = False,
      function_result = None, error = Some msg, input_data = input,
      strace_file = None, strace_summary_file = None, strace_full_file = None,
      res_stdout = None, res_stderr = None\<rparr>"

text \<open>
  \<open>except Exception as e: return ...\<close>: the handler builds the result from \<open>str(e)\<close>
  when \<open>e\<close> is an \<open>Exception\<close>; any other exception goes on.
\<close>

definition except_exception :: "exn \<Rightarrow> (string \<Rightarrow> profile_result) \<Rightarrow> profile_result outcome" where
  "except_exception e handler = (if is_exception e then Returned (handler (str_exn e)) else Raised e)"

text \<open>
  Lines 97 to 110, the profiled section: \<open>function_result\<close> and \<open>error_msg\<close> after it,
  or the exception that leaves the section because it is not an \<open>Exception\<close>.
\<close>

definition profiled_section :: "pyval outcome \<Rightarrow> (pyval \<times> string option) outcome" where
  "profiled_section called =
     (case called of
        Returned v \<Rightarrow> Returned (v, None)
      | Raised e \<Rightarrow> if is_exception e then Returned (PNone, Some (str_exn e)) else Raised e)"

text \<open>The \<open>finally\<close> block, for a collector that was started and not waited for with success.\<close>

definition cleanup_collector :: "runtime_env \<Rightarrow> effect list" where
  "cleanup_collector env = Poll # (if poll_running env then [Terminate, Wait 5] else [])"

text \<open>
  The call returns its effects, the dictionary it returns or the exception that leaves
  it, and the profiler as the handler left it. The print of the input at line 71 is
  outside the \<open>try\<close>.
\<close>

definition profile_function_in_runtime ::
  "interp \<Rightarrow> profiler \<Rightarrow> runtime_env \<Rightarrow> function_info \<Rightarrow> bool
     \<Rightarrow> effect list \<times> profile_result outcome \<times> profiler" where
  "profile_function_in_runtime py self env info summary =
     (let fpath = function_path info;
          fname = name info;
          input = get_input_for_function self fname;
          mode_str = mode_str_of summary
      in case py_str py input of
           Raised e \<Rightarrow> (runtime_head info summary, Raised e, self)
         | Returned shown \<Rightarrow>
             (let prints = runtime_head info summary @ [Print (''Input data: '' @ shown)];
                  current_pid = getpid env;
                  sfile = runtime_file_of fname summary;
                  strace_cmd = runtime_cmd_of current_pid fname summary
              in case popen env of
                   Raised e \<Rightarrow>
                     (prints @ [Popen strace_cmd],
                      except_exception e (runtime_failure fname mode_str input), self)
                 | Returned u \<Rightarrow>
                     (case load_and_call env fpath input of
                        (called, input') \<Rightarrow>
                          (let self' = store_input self fname input';
                               profiled = prints @ [Popen strace_cmd, Sleep 1, LoadAndCall fpath input]
                           in case profiled_section called of
                                Raised e \<Rightarrow> (profiled @ cleanup_collector env, Raised e, self')
                              | Returned (fresult, error_msg) \<Rightarrow>
                                  (case sigint_wait env of
                                     Returned w \<Rightarrow>
                                       (profiled @ [SendSigint, Wait 10,
                                                    Print (''Runtime strace file saved: '' @ sfile), Poll],
                                        Returned
                                          \<lparr>function_name = fname,
                                           profiling_mode = ''runtime_'' @ mode_str,
                                           success = True, function_result = Some fresult,
                                           error = error_msg, input_data = input',
                                           strace_file = Some sfile,
                                           strace_summary_file = None, strace_full_file = None,
                                           res_stdout = None, res_stderr = None\<rparr>,
                                        self')
                                   | Raised e \<Rightarrow>
                                       (profiled @ [SendSigint, Wait 10] @ cleanup_collector env,
                                        except_exception e (runtime_failure fname mode_str input'),
                                        self'))))))"

section \<open>Spawn mode\<close>

text \<open>
  The text of the temporary script, an f-string over the path and the text of
  \<open>repr(input_data)\<close>.
\<close>

definition script_content :: "string \<Rightarrow> string \<Rightarrow> string" where
  \<open>script_content fpath input_repr = concat (map (\<lambda>l. l @ ''\<newline>'')
     [[],
      ''import importlib.util'',
      ''import json'',
      ''import sys'',
      ''from pathlib import Path'',
      [],
      ''# Function execution script'',
      ''function_path = "'' @ fpath @ ''"'',
      ''input_data = '' @ input_repr,
      [],
      ''try:'',
      ''    # Load function module'',
      ''    spec = importlib.util.spec_from_file_location("func_module", function_path)'',
      ''    func_module = importlib.util.module_from_spec(spec)'',
      ''    spec.loader.exec_module(func_module)'',
      ''    '',
      ''    # Execute function'',
      ''    result = func_module.handler(input_data)'',
      ''    '',
      ''    # Print result without extra output during strace'',
      ''    print(repr(result))'',
      ''        '',
      ''except Exception as e:'',
      ''    print(f"ERROR: {e}")'',
      ''    sys.exit(1)''])\<close>



text \<open>
  What the world answers during one call of \<open>profile_full_python\<close>: whether the
  temporary file is created, and under what name; whether the script is written to it;
  what each of the two \<open>subprocess.run\<close> calls does; and what files exist once the runs
  are over.
\<close>

record spawn_env =
  create_script :: "string outcome"
  write_script :: "unit outcome"
  run_summary :: "completed_process outcome"
  run_full :: "completed_process outcome"
  after_runs :: "string set \<Rightarrow> string set"

definition fullpython_failure :: "string \<Rightarrow> string \<Rightarrow> pyval \<Rightarrow> profile_result" where
  "fullpython_failure fname msg input =
     \<lparr>function_name = fname, profiling_mode = ''full_python'', success = False,
      function_result = None, error = Some msg, input_data = input,
      strace_file = None, strace_summary_file = None, strace_full_file = None,
      res_stdout = None, res_stderr = None\<rparr>"

definition summary_file_of :: "string \<Rightarrow> string" where
  "summary_file_of fname = ''fullpython_summary_'' @ fname @ ''.txt''"

definition full_file_of :: "string \<Rightarrow> string" where
  "full_file_of fname = ''fullpython_full_'' @ fname @ ''.txt''"

definition summary_cmd_of :: "string \<Rightarrow> string \<Rightarrow> string list" where
  "summary_cmd_of fname script =
     [''strace'', ''-c'', ''-f'', ''-o'', summary_file_of fname, ''python3'', script]"

definition full_cmd_of :: "string \<Rightarrow> string \<Rightarrow> string list" where
  "full_cmd_of fname script =
     [''strace'', ''-f'', ''-o'', full_file_of fname, ''python3'', script]"

text \<open>The frame in which line 225 evaluates the output of the summary run.\<close>

definition spawn_frame ::
  "profiler \<Rightarrow> function_info \<Rightarrow> string \<Rightarrow> string
     \<Rightarrow> completed_process \<Rightarrow> completed_process \<Rightarrow> frame" where
  "spawn_frame self info script input_repr result_summary result_full =
     \<lparr>loc_self = self, loc_function_info = info,
      loc_function_path = function_path info, loc_function_name = name info,
      loc_input_data = get_input_for_function self (name info),
      loc_strace_summary_file = summary_file_of (name info),
      loc_strace_full_file = full_file_of (name info),
      loc_script_content = script_content (function_path info) input_repr,
      loc_temp_script_path = script,
      loc_strace_summary_cmd = summary_cmd_of (name info) script,
      loc_result_summary = result_summary,
      loc_strace_full_cmd = full_cmd_of (name info) script,
      loc_result_full = result_full,
      loc_output_line = py_strip (stdout result_summary)\<rparr>"

text \<open>
  Lines 216 to 234: the workload's outcome, read from the summary run. A raise of
  \<open>eval\<close>, of whatever kind, is dropped by the bare \<open>except\<close>. The index \<open>[1]\<close> into the
  result of \<open>split\<close> raises \<open>IndexError\<close> when the separator does not occur.
\<close>

definition parse_output ::
  "interp \<Rightarrow> frame \<Rightarrow> completed_process \<Rightarrow> (pyval \<times> string option) outcome" where
  "parse_output py fr result_summary =
     (if returncode result_summary = 0 then
        (let output_line = py_strip (stdout result_summary)
         in if output_line \<noteq> [] \<and> \<not> startswith output_line ''ERROR:''
            then (case py_eval py fr output_line of
                    Some v \<Rightarrow> Returned (v, None)
                  | None \<Rightarrow> Returned (PNone, None))
            else Returned (PNone, None))
      else if stdout result_summary \<noteq> [] \<and> startswith (stdout result_summary) ''ERROR:'' then
        (case split1 ''ERROR:'' (stdout result_summary) of
           Some (before, rest) \<Rightarrow> Returned (PNone, Some (py_strip rest))
         | None \<Rightarrow> Raised (Exception ''list index out of range''))
      else
        Returned (PNone,
          Some (''Process failed with exit code '' @ py_int_str (returncode result_summary)
                @ (if stderr result_summary \<noteq> [] then '': '' @ stderr result_summary else []))))"

text \<open>
  The two \<open>except\<close> clauses of \<open>profile_full_python\<close>; an exception that is not an
  \<open>Exception\<close> goes on.
\<close>

definition fullpython_except :: "string \<Rightarrow> exn \<Rightarrow> pyval \<Rightarrow> profile_result outcome" where
  "fullpython_except fname e input =
     (case e of
        TimeoutExpired m \<Rightarrow> Returned (fullpython_failure fname ''Full Python execution timed out'' input)
      | Exception m \<Rightarrow> Returned (fullpython_failure fname m input)
      | BaseException m \<Rightarrow> Raised e)"

text \<open>\<open>os.unlink\<close> inside \<open>try\<close> ... \<open>except: pass\<close>: a missing file raises, and that is dropped.\<close>

definition unlink :: "string \<Rightarrow> string set \<Rightarrow> string set outcome" where
  "unlink p files = (if p \<in> files then Returned (files - {p})
                     else Raised (Exception ''No such file or directory''))"

definition cleanup_script :: "string \<Rightarrow> string set \<Rightarrow> string set" where
  "cleanup_script p files = (case unlink p files of Returned files' \<Rightarrow> files' | Raised e \<Rightarrow> files)"

text \<open>
  The prints at lines 156 and 157; the effects up to the end of the \<open>with\<close> block at
  line 193, when it is reached; and the prints at lines 236 to 238.
\<close>

definition fullpython_head :: "function_info \<Rightarrow> effect list" where
  "fullpython_head info =
     [Print (''=== Profiling '' @ name info @ '' with full Python execution ===''),
      Print (''Function path: '' @ function_path info)]"

definition script_written :: "function_info \<Rightarrow> string \<Rightarrow> string \<Rightarrow> string \<Rightarrow> effect list" where
  "script_written info shown script input_repr =
     fullpython_head info
     @ [Print (''Input data: '' @ shown), MakeTemp script,
        WriteScript script (script_content (function_path info) input_repr)]"

definition files_saved :: "string \<Rightarrow> effect list" where
  "files_saved fname =
     [Print ''Full Python strace files saved:'',
      Print (''  Summary: '' @ summary_file_of fname),
      Print (''  Full trace: '' @ full_file_of fname)]"

text \<open>
  The call returns its effects, the dictionary it returns or the exception that leaves
  it, and the files that exist afterwards. Lines 156 to 193 are outside the \<open>try\<close>: the
  print of the input, the creation of the temporary file (kept, \<open>delete=False\<close>), the
  \<open>repr\<close> of the input inside the f-string and the write.
\<close>

definition profile_full_python ::
  "interp \<Rightarrow> profiler \<Rightarrow> spawn_env \<Rightarrow> function_info \<Rightarrow> string set
     \<Rightarrow> effect list \<times> profile_result outcome \<times> string set" where
  "profile_full_python py self env info files =
     (let fpath = function_path info;
          fname = name info;
          input = get_input_for_function self fname
      in case py_str py input of
           Raised e \<Rightarrow> (fullpython_head info, Raised e, files)
         | Returned shown \<Rightarrow>
             (let prints = fullpython_head info @ [Print (''Input data: '' @ shown)]
              in case create_script env of
                   Raised e \<Rightarrow> (prints, Raised e, files)
                 | Returned script \<Rightarrow>
                     (case py_repr py input of
                        Raised e \<Rightarrow> (prints @ [MakeTemp script], Raised e, insert script files)
                      | Returned input_repr \<Rightarrow>
                          (case write_script env of
                             Raised e \<Rightarrow> (prints @ [MakeTemp script], Raised e, insert script files)
                           | Returned u \<Rightarrow>
                               (let created = script_written info shown script input_repr;
                                    summary_cmd = summary_cmd_of fname script;
                                    full_cmd = full_cmd_of fname script;
                                    files' = cleanup_script script (after_runs env (insert script files))
                                in case run_summary env of
                                     Raised e \<Rightarrow>
                                       (created @ [Run summary_cmd 60, Unlink script],
                                        fullpython_except fname e input, files')
                                   | Returned result_summary \<Rightarrow>
                                       (case run_full env of
                                          Raised e \<Rightarrow>
                                            (created @ [Run summary_cmd 60, Run full_cmd 60, Unlink script],
                                             fullpython_except fname e input, files')
                                        | Returned result_full \<Rightarrow>
                                            (case parse_output py
                                                    (spawn_frame self info script input_repr
                                                       result_summary result_full)
                                                    result_summary of
                                               Raised e \<Rightarrow>
                                                 (created @ [Run summary_cmd 60, Run full_cmd 60,
                                                             Unlink script],
                                                  fullpython_except fname e input, files')
                                             | Returned (fresult, error_msg) \<Rightarrow>
                                                 (created @ [Run summary_cmd 60, Run full_cmd 60]
                                                    @ files_saved fname @ [Unlink script],
                                                  Returned
                                                    \<lparr>function_name = fname,
                                                     profiling_mode = ''full_python'',
                                                     success = True,
                                                     function_result = Some fresult,
                                                     error = error_msg,
                                                     input_data = input, strace_file = None,
                                                     strace_summary_file = Some (summary_file_of fname),
                                                     strace_full_file = Some (full_file_of fname),
                                                     res_stdout = Some (stdout result_summary),
                                                     res_stderr = Some (stderr result_summary)\<rparr>,
                                                  files'))))))))"

section \<open>The orchestrator\<close>

definition check_mark :: string where "check_mark = [CHR 0xE2, CHR 0x9C, CHR 0x93]"
definition cross_mark :: string where "cross_mark = [CHR 0xE2, CHR 0x9C, CHR 0x97]"

text \<open>
  One \<open>if result['success']:\<close> block of the final report: what it prints, and the
  exception that ends it, if any. Reading the key \<open>'function_result'\<close> of a dictionary
  that lacks it raises \<open>KeyError\<close>, and the f-string of the result raises when \<open>str\<close>
  does; nothing in \<open>main\<close> catches either.
\<close>

definition report_result :: "interp \<Rightarrow> string \<Rightarrow> profile_result \<Rightarrow> effect list \<times> exn option" where
  "report_result py title r =
     (if success r then
        (case function_result r of
           None \<Rightarrow> ([Print title], Some (Exception (sq # ''function_result'' @ [sq])))
         | Some v \<Rightarrow>
             (let executed = [Print title,
                    Print (''  Function executed: '' @ (if v \<noteq> PNone then check_mark else cross_mark))];
                  error_line = (case error r of
                     Some m \<Rightarrow> if m \<noteq> [] then [Print (''  Function error: '' @ m)] else []
                   | None \<Rightarrow> [])
              in if v \<noteq> PNone then
                   (case py_str py v of
                      Raised e \<Rightarrow> (executed, Some e)
                    | Returned shown \<Rightarrow>
                        (executed @ [Print (''  Function result: '' @ shown)] @ error_line, None))
                 else (executed @ error_line, None)))
      else ([], None))"

text \<open>
  The report of \<open>main\<close>: the block for the summary result is commented out in the
  source, so the report is made from the full attach result and the spawn result.
\<close>

definition final_results ::
  "interp \<Rightarrow> profile_result \<Rightarrow> profile_result \<Rightarrow> effect list \<times> exn option" where
  "final_results py runtime_full_result fullpython_result =
     (case report_result py (''\<newline>Runtime-only profiling (full):'') runtime_full_result of
        (out1, Some e) \<Rightarrow> (Print ''\<newline>=== Final Results ==='' # out1, Some e)
      | (out1, None) \<Rightarrow>
          (case report_result py (''\<newline>Full Python profiling:'') fullpython_result of
             (out2, raised) \<Rightarrow> (Print ''\<newline>=== Final Results ==='' # out1 @ out2, raised)))"

definition banner :: "effect list" where
  "banner =
     [Print ''=== True Runtime Profiler - Dual Mode Demo ==='',
      Print ''This tool provides two profiling modes:'',
      Print ''1. Runtime-only: Profile function loading/execution (Python runtime already loaded)'',
      Print ''2. Full Python: Profile entire Python execution including runtime startup + function loading/exec'',
      Print []]"

text \<open>
  What the world answers during \<open>main\<close>: what \<open>rglob\<close> finds, the answers to the three
  profiling calls, and the files that exist at the start.
\<close>

record main_env =
  found_paths :: "string list list"
  summary_env :: runtime_env
  full_env :: runtime_env
  python_env :: spawn_env
  files0 :: "string set"

text \<open>
  The three profiling calls of \<open>main\<close>, in order, for the chosen workload: what they
  print and do, and the three results, or the exception that left one of the calls. Each
  call works on the profiler as the call before left it.
\<close>

definition three_modes ::
  "interp \<Rightarrow> profiler \<Rightarrow> main_env \<Rightarrow> function_info
     \<Rightarrow> effect list \<times> (profile_result \<times> profile_result \<times> profile_result) outcome" where
  "three_modes py prof env target =
     (let start = [Print (''Testing with function: '' @ name target),
                   Print ''\<newline>1a. Profiling with runtime-only method (summary)...''];
          rule = Print (''\<newline>'' @ replicate 60 CHR ''='')
      in case profile_function_in_runtime py prof (summary_env env) target True of
           (out1, res1, prof1) \<Rightarrow>
             (case res1 of
                Raised e \<Rightarrow> (start @ out1, Raised e)
              | Returned runtime_summary_result \<Rightarrow>
                  (let second = start @ out1
                         @ [Print ''\<newline>1b. Profiling with runtime-only method (full)...'']
                   in case profile_function_in_runtime py prof1 (full_env env) target False of
                        (out2, res2, prof2) \<Rightarrow>
                          (case res2 of
                             Raised e \<Rightarrow> (second @ out2, Raised e)
                           | Returned runtime_full_result \<Rightarrow>
                               (let third = second @ out2
                                      @ [rule, Print ''\<newline>2. Profiling with full Python method...'']
                                in case profile_full_python py prof2 (python_env env) target (files0 env) of
                                     (out3, res3, files') \<Rightarrow>
                                       (case res3 of
                                          Raised e \<Rightarrow> (third @ out3, Raised e)
                                        | Returned fullpython_result \<Rightarrow>
                                            (third @ out3 @ [rule],
                                             Returned (runtime_summary_result, runtime_full_result,
                                                       fullpython_result))))))))"

definition list_available :: "profiler \<Rightarrow> effect list" where
  "list_available prof =
     [Print ''No suitable test function found'', Print ''Available functions:'']
     @ map (\<lambda>func. Print (''  - '' @ name func @ '' ('' @ category func @ '')''))
           (take 5 (funcs prof))"

text \<open>\<open>main\<close>: what it prints and does, and the exception that leaves it, if any.\<close>

definition main :: "interp \<Rightarrow> main_env \<Rightarrow> effect list \<times> exn option" where
  "main py env =
     (let prof = init (found_paths env)
      in case find (\<lambda>func. py_in ''110.dynamic-html'' (name func)) (funcs prof) of
           Some target \<Rightarrow>
             (case three_modes py prof env target of
                (out, Raised e) \<Rightarrow> (banner @ out, Some e)
              | (out, Returned (runtime_summary_result, runtime_full_result, fullpython_result)) \<Rightarrow>
                  (case final_results py runtime_full_result fullpython_result of
                     (report, raised) \<Rightarrow> (banner @ out @ report, raised)))
         | None \<Rightarrow> (banner @ list_available prof, None))"

section \<open>An interpreter for the sample runs\<close>

text \<open>
  The sample runs below need an interpreter. This one answers as CPython 3.11 does on the
  values and texts that the sample runs hand to it: \<open>None\<close>, booleans, small integers,
  strings of printable ASCII characters, lists and dictionaries of these, and two
  objects. It is not a model of \<open>str\<close>, \<open>repr\<close> and \<open>eval\<close> beyond them (Python escapes
  non-printable characters outside ASCII, refuses to print an integer of more than 4300
  digits and evaluates every expression, not only literals), and no theorem about all
  interpreters uses it.
\<close>

text \<open>
  \<open>repr\<close> of a string: single quotes, unless the text has a single quote and no double
  quote; the quote and the backslash are escaped, tab, line feed and carriage return are
  written \<open>\t\<close>, \<open>\n\<close>, \<open>\r\<close>, and the other ASCII control characters as \<open>\xNN\<close>.
\<close>

definition repr_quote :: "string \<Rightarrow> char" where
  "repr_quote s = (if sq \<in> set s \<and> dq \<notin> set s then dq else sq)"

definition hex_char :: "nat \<Rightarrow> char" where
  "hex_char d = (if d < 10 then char_of (48 + d) else char_of (87 + d))"

definition repr_char :: "char \<Rightarrow> char \<Rightarrow> string" where
  "repr_char q c =
     (if c = q \<or> c = bslash then [bslash, c]
      else if c = CHR 0x09 then [bslash, CHR ''t'']
      else if c = CHR 0x0A then [bslash, CHR ''n'']
      else if c = CHR 0x0D then [bslash, CHR ''r'']
      else if (of_char c :: nat) < 32 \<or> (of_char c :: nat) = 127
        then [bslash, CHR ''x'', hex_char (of_char c div 16), hex_char (of_char c mod 16)]
      else [c])"

definition str_repr :: "string \<Rightarrow> string" where
  "str_repr s = (let q = repr_quote s in q # concat (map (repr_char q) s) @ [q])"

fun repr_text :: "pyval \<Rightarrow> string"
  and repr_items :: "pyval list \<Rightarrow> string"
  and repr_pairs :: "(string \<times> pyval) list \<Rightarrow> string" where
  "repr_text PNone = ''None''"
| "repr_text (PBool b) = (if b then ''True'' else ''False'')"
| "repr_text (PInt i) = py_int_str i"
| "repr_text (PStr s) = str_repr s"
| "repr_text (PList xs) = ''['' @ repr_items xs @ '']''"
| "repr_text (PDict kvs) = ''{'' @ repr_pairs kvs @ ''}''"
| "repr_text (PObject r) = r"
| "repr_items [] = []"
| "repr_items [x] = repr_text x"
| "repr_items (x # y # ys) = repr_text x @ '', '' @ repr_items (y # ys)"
| "repr_pairs [] = []"
| "repr_pairs [(k, v)] = str_repr k @ '': '' @ repr_text v"
| "repr_pairs ((k, v) # p # ps) = str_repr k @ '': '' @ repr_text v @ '', '' @ repr_pairs (p # ps)"

text \<open>\<open>str\<close>: the text itself for a string, as \<open>repr\<close> for the other values.\<close>

definition str_text :: "pyval \<Rightarrow> string" where
  "str_text v = (case v of PStr s \<Rightarrow> s | _ \<Rightarrow> repr_text v)"


text \<open>
  The reader takes back the texts written above, with exactly the separators \<open>repr\<close>
  uses; a literal names no variable, so the frame is not looked at. Any other text is
  answered with \<open>None\<close>, as a raise.
\<close>

definition is_digit :: "char \<Rightarrow> bool" where
  "is_digit c = (48 \<le> (of_char c :: nat) \<and> (of_char c :: nat) \<le> 57)"

definition digits_val :: "string \<Rightarrow> nat" where
  "digits_val ds = foldl (\<lambda>a c. 10 * a + (of_char c - 48)) 0 ds"

text \<open>
  A decimal integer literal, with an optional minus sign. Python rejects a literal with
  a leading zero unless all its digits are zero.
\<close>

definition parse_int :: "string \<Rightarrow> (int \<times> string) option" where
  "parse_int s =
     (let neg = (s \<noteq> [] \<and> hd s = CHR ''-'');
          body = (if neg then tl s else s);
          ds = takeWhile is_digit body;
          rest = dropWhile is_digit body
      in if ds = [] \<or> (hd ds = CHR ''0'' \<and> (\<exists>c \<in> set ds. c \<noteq> CHR ''0'')) then None
         else Some (if neg then - int (digits_val ds) else int (digits_val ds), rest))"

definition hex_val :: "char \<Rightarrow> nat option" where
  "hex_val c =
     (let n = (of_char c :: nat)
      in if 48 \<le> n \<and> n \<le> 57 then Some (n - 48)
         else if 97 \<le> n \<and> n \<le> 102 then Some (n - 87)
         else if 65 \<le> n \<and> n \<le> 70 then Some (n - 55)
         else None)"

text \<open>The character with code point \<open>n < 256\<close>, in UTF-8.\<close>

definition utf8_of :: "nat \<Rightarrow> string" where
  "utf8_of n = (if n < 128 then [char_of n] else [char_of (192 + n div 64), char_of (128 + n mod 64)])"

text \<open>
  The body of a string literal opened with the quote \<open>q\<close>, up to the closing quote:
  the text it denotes and what follows the literal.
\<close>

fun unescape :: "char \<Rightarrow> string \<Rightarrow> (string \<times> string) option" where
  "unescape q [] = None"
| "unescape q (c # cs) =
     (if c = q then Some ([], cs)
      else if c = CHR 0x0A then None
      else if c = bslash then
        (case cs of
           [] \<Rightarrow> None
         | d # ds \<Rightarrow>
             if d = bslash \<or> d = sq \<or> d = dq
               then map_option (\<lambda>(t, rest). (d # t, rest)) (unescape q ds)
             else if d = CHR ''t''
               then map_option (\<lambda>(t, rest). (CHR 0x09 # t, rest)) (unescape q ds)
             else if d = CHR ''n''
               then map_option (\<lambda>(t, rest). (CHR 0x0A # t, rest)) (unescape q ds)
             else if d = CHR ''r''
               then map_option (\<lambda>(t, rest). (CHR 0x0D # t, rest)) (unescape q ds)
             else if d = CHR ''x'' then
               (case ds of
                  h1 # h2 # cs3 \<Rightarrow>
                    (case (hex_val h1, hex_val h2) of
                       (Some a, Some b) \<Rightarrow>
                         map_option (\<lambda>(t, rest). (utf8_of (16 * a + b) @ t, rest)) (unescape q cs3)
                     | _ \<Rightarrow> None)
                | _ \<Rightarrow> None)
             else None)
      else map_option (\<lambda>(t, rest). (c # t, rest)) (unescape q cs))"

text \<open>
  A dictionary display sets its keys from left to right: a key met again keeps its
  place and takes the new value.
\<close>

fun dict_set :: "(string \<times> pyval) list \<Rightarrow> string \<Rightarrow> pyval \<Rightarrow> (string \<times> pyval) list" where
  "dict_set [] k v = [(k, v)]"
| "dict_set ((k', v') # kvs) k v =
     (if k' = k then (k', v) # kvs else (k', v') # dict_set kvs k v)"

definition build_dict :: "(string \<times> pyval) list \<Rightarrow> (string \<times> pyval) list" where
  "build_dict kvs = foldl (\<lambda>d (k, v). dict_set d k v) [] kvs"

text \<open>
  The reader takes fuel, one unit for each value and each element it enters; the length
  of the text is enough, since each of them is at least one character long.
\<close>

fun parse_val :: "nat \<Rightarrow> string \<Rightarrow> (pyval \<times> string) option"
  and parse_items :: "nat \<Rightarrow> string \<Rightarrow> (pyval list \<times> string) option"
  and parse_pairs :: "nat \<Rightarrow> string \<Rightarrow> ((string \<times> pyval) list \<times> string) option" where
  "parse_val 0 s = None"
| "parse_val (Suc n) s =
     (if prefix ''None'' s then Some (PNone, drop 4 s)
      else if prefix ''True'' s then Some (PBool True, drop 4 s)
      else if prefix ''False'' s then Some (PBool False, drop 5 s)
      else case s of
        [] \<Rightarrow> None
      | c # cs \<Rightarrow>
          if c = sq \<or> c = dq then map_option (\<lambda>(t, rest). (PStr t, rest)) (unescape c cs)
          else if c = CHR ''['' then
            (if prefix '']'' cs then Some (PList [], drop 1 cs)
             else map_option (\<lambda>(xs, rest). (PList xs, rest)) (parse_items n cs))
          else if c = CHR ''{'' then
            (if prefix ''}'' cs then Some (PDict [], drop 1 cs)
             else map_option (\<lambda>(kvs, rest). (PDict (build_dict kvs), rest)) (parse_pairs n cs))
          else map_option (\<lambda>(i, rest). (PInt i, rest)) (parse_int s))"
| "parse_items 0 s = None"
| "parse_items (Suc n) s =
     (case parse_val n s of
        None \<Rightarrow> None
      | Some (v, rest) \<Rightarrow>
          if prefix '']'' rest then Some ([v], drop 1 rest)
          else if prefix '', '' rest
            then map_option (\<lambda>(vs, r). (v # vs, r)) (parse_items n (drop 2 rest))
          else None)"
| "parse_pairs 0 s = None"
| "parse_pairs (Suc n) s =
     (case s of
        [] \<Rightarrow> None
      | q # cs \<Rightarrow>
          if q = sq \<or> q = dq then
            (case unescape q cs of
               None \<Rightarrow> None
             | Some (k, rest) \<Rightarrow>
                 if prefix '': '' rest then
                   (case parse_val n (drop 2 rest) of
                      None \<Rightarrow> None
                    | Some (v, rest') \<Rightarrow>
                        if prefix ''}'' rest' then Some ([(k, v)], drop 1 rest')
                        else if prefix '', '' rest'
                          then map_option (\<lambda>(kvs, r). ((k, v) # kvs, r))
                                 (parse_pairs n (drop 2 rest'))
                        else None)
                 else None)
          else None)"

definition eval_literal :: "string \<Rightarrow> pyval option" where
  "eval_literal s =
     (case parse_val (length s) s of
        Some (v, rest) \<Rightarrow> if rest = [] then Some v else None
      | None \<Rightarrow> None)"


definition bad_object :: pyval where
  "bad_object = PObject ''<func_module.Bad object at 0x7f3a5c0e2e90>''"

definition sample_interp :: interp where
  "sample_interp =
     \<lparr>py_str = (\<lambda>v. if v = bad_object then Raised (Exception ''unprintable'')
                      else Returned (str_text v)),
      py_repr = (\<lambda>v. Returned (repr_text v)),
      py_eval = (\<lambda>fr s. eval_literal s)\<rparr>"

section \<open>Sample inputs\<close>

definition dynamic_html :: function_info where
  "dynamic_html =
     \<lparr>name = ''110.dynamic-html'', category = ''100.webapps'',
      function_path = ''benchmarks/100.webapps/110.dynamic-html/python/function.py'',
      input_path = ''benchmarks/100.webapps/110.dynamic-html/python/input.py''\<rparr>"

text \<open>A workload whose name has no entry in the table of inputs.\<close>

definition dynamic_html_v2 :: function_info where
  "dynamic_html_v2 =
     \<lparr>name = ''110.dynamic-html-v2'', category = ''100.webapps'',
      function_path = ''benchmarks/100.webapps/110.dynamic-html-v2/python/function.py'',
      input_path = ''benchmarks/100.webapps/110.dynamic-html-v2/python/input.py''\<rparr>"

text \<open>
  Handlers: one returns \<open>{'result': 42}\<close>, one raises \<open>Exception('boom')\<close>, one calls
  \<open>sys.exit(1)\<close>; none of them changes its input.
\<close>

definition call_returns_42 :: "string \<Rightarrow> pyval \<Rightarrow> pyval outcome \<times> pyval" where
  "call_returns_42 = (\<lambda>path input. (Returned (PDict [(''result'', PInt 42)]), input))"

definition call_raises_boom :: "string \<Rightarrow> pyval \<Rightarrow> pyval outcome \<times> pyval" where
  "call_raises_boom = (\<lambda>path input. (Raised (Exception ''boom''), input))"

definition call_exits :: "string \<Rightarrow> pyval \<Rightarrow> pyval outcome \<times> pyval" where
  "call_exits = (\<lambda>path input. (Raised (BaseException ''1''), input))"

text \<open>A handler that returns the object that \<open>str\<close> cannot print.\<close>

definition call_returns_bad :: "string \<Rightarrow> pyval \<Rightarrow> pyval outcome \<times> pyval" where
  "call_returns_bad = (\<lambda>path input. (Returned bad_object, input))"

text \<open>A handler that adds the key \<open>'touched'\<close> to its input and returns \<open>{'result': 42}\<close>.\<close>

definition call_touches :: "string \<Rightarrow> pyval \<Rightarrow> pyval outcome \<times> pyval" where
  "call_touches = (\<lambda>path input.
     (Returned (PDict [(''result'', PInt 42)]),
      (case input of PDict kvs \<Rightarrow> PDict (dict_set kvs ''touched'' (PBool True)) | _ \<Rightarrow> input)))"

text \<open>A handler that returns, and a collector that stops when interrupted.\<close>

definition env_ok :: runtime_env where
  "env_ok =
     \<lparr>getpid = 4242, popen = Returned (), load_and_call = call_returns_42,
      sigint_wait = Returned (), poll_running = False\<rparr>"

text \<open>A collector that ignores the interrupt: the handler returns, the bounded wait expires.\<close>

definition env_collector_hangs :: runtime_env where
  "env_collector_hangs =
     \<lparr>getpid = 4242, popen = Returned (), load_and_call = call_returns_42,
      sigint_wait = Raised (TimeoutExpired ''Command timed out after 10 seconds''),
      poll_running = True\<rparr>"

text \<open>The same collector, with a handler that raises.\<close>

definition env_fault_and_hang :: runtime_env where
  "env_fault_and_hang =
     \<lparr>getpid = 4242, popen = Returned (), load_and_call = call_raises_boom,
      sigint_wait = Raised (TimeoutExpired ''Command timed out after 10 seconds''),
      poll_running = True\<rparr>"

text \<open>A handler that raises, and a collector that stops when interrupted.\<close>

definition env_fault :: runtime_env where
  "env_fault =
     \<lparr>getpid = 4242, popen = Returned (), load_and_call = call_raises_boom,
      sigint_wait = Returned (), poll_running = False\<rparr>"

text \<open>A handler that calls \<open>sys.exit(1)\<close>, under a collector that would stop when interrupted.\<close>

definition env_exit :: runtime_env where
  "env_exit =
     \<lparr>getpid = 4242, popen = Returned (), load_and_call = call_exits,
      sigint_wait = Returned (), poll_running = True\<rparr>"

text \<open>A handler that returns the unprintable object, and a collector that stops.\<close>

definition env_bad :: runtime_env where
  "env_bad =
     \<lparr>getpid = 4242, popen = Returned (), load_and_call = call_returns_bad,
      sigint_wait = Returned (), poll_running = False\<rparr>"

text \<open>A handler that changes its input, and a collector that stops.\<close>

definition env_touch :: runtime_env where
  "env_touch =
     \<lparr>getpid = 4242, popen = Returned (), load_and_call = call_touches,
      sigint_wait = Returned (), poll_running = False\<rparr>"

text \<open>No collector on the machine: \<open>Popen\<close> raises.\<close>

definition env_no_collector :: runtime_env where
  "env_no_collector =
     \<lparr>getpid = 4242, popen = Raised (Exception ''[Errno 2] No such file or directory: strace''),
      load_and_call = call_returns_42, sigint_wait = Returned (), poll_running = False\<rparr>"

text \<open>
  What is captured from a run of the script: when the handler returns \<open>{'result': 42}\<close>,
  when it raises \<open>Exception('boom')\<close>, when the collector may not trace, and when the
  handler returns an object of a class without \<open>__repr__\<close>.
\<close>

definition process_42 :: completed_process where
  "process_42 = \<lparr>returncode = 0, stdout = ''{'result': 42}\<newline>'', stderr = []\<rparr>"

definition process_boom :: completed_process where
  "process_boom = \<lparr>returncode = 1, stdout = ''ERROR: boom\<newline>'', stderr = []\<rparr>"

definition process_denied :: completed_process where
  "process_denied =
     \<lparr>returncode = 1, stdout = [], stderr = ''strace: ptrace: Operation not permitted''\<rparr>"

definition process_object :: completed_process where
  "process_object =
     \<lparr>returncode = 0, stdout = ''<object object at 0x7f3a5c0e1d40>\<newline>'', stderr = []\<rparr>"

text \<open>Spawn mode: both runs complete, the handler returns \<open>{'result': 42}\<close>.\<close>

definition spawn_ok :: spawn_env where
  "spawn_ok =
     \<lparr>create_script = Returned ''/tmp/tmpk3v9x2ab.py'', write_script = Returned (),
      run_summary = Returned process_42, run_full = Returned process_42,
      after_runs = (\<lambda>files. files)\<rparr>"

text \<open>Spawn mode: the first run exceeds its sixty seconds.\<close>

definition spawn_timeout :: spawn_env where
  "spawn_timeout =
     \<lparr>create_script = Returned ''/tmp/tmpk3v9x2ab.py'', write_script = Returned (),
      run_summary = Raised (TimeoutExpired ''Command timed out after 60 seconds''),
      run_full = Returned process_42,
      after_runs = (\<lambda>files. files)\<rparr>"

text \<open>Spawn mode: the first run completes, the second exceeds its sixty seconds.\<close>

definition spawn_full_timeout :: spawn_env where
  "spawn_full_timeout =
     \<lparr>create_script = Returned ''/tmp/tmpk3v9x2ab.py'', write_script = Returned (),
      run_summary = Returned process_42,
      run_full = Raised (TimeoutExpired ''Command timed out after 60 seconds''),
      after_runs = (\<lambda>files. files)\<rparr>"

text \<open>Spawn mode: the handler raises in both runs.\<close>

definition spawn_fault :: spawn_env where
  "spawn_fault =
     \<lparr>create_script = Returned ''/tmp/tmpk3v9x2ab.py'', write_script = Returned (),
      run_summary = Returned process_boom, run_full = Returned process_boom,
      after_runs = (\<lambda>files. files)\<rparr>"

text \<open>Spawn mode: the collector may not trace, writes to standard error and exits with 1.\<close>

definition spawn_denied :: spawn_env where
  "spawn_denied =
     \<lparr>create_script = Returned ''/tmp/tmpk3v9x2ab.py'', write_script = Returned (),
      run_summary = Returned process_denied, run_full = Returned process_denied,
      after_runs = (\<lambda>files. files)\<rparr>"

text \<open>Spawn mode: the handler returns the plain object; \<open>eval\<close> of its text is a syntax error.\<close>

definition spawn_object :: spawn_env where
  "spawn_object =
     \<lparr>create_script = Returned ''/tmp/tmpk3v9x2ab.py'', write_script = Returned (),
      run_summary = Returned process_object, run_full = Returned process_object,
      after_runs = (\<lambda>files. files)\<rparr>"

text \<open>
  A whole run in which the summary attach call succeeds, the full attach call finds no
  collector and the spawn call times out.
\<close>

definition run_only_summary :: main_env where
  "run_only_summary =
     \<lparr>found_paths = [[''benchmarks'', ''100.webapps'', ''110.dynamic-html'', ''python'', ''function.py'']],
      summary_env = env_ok, full_env = env_no_collector, python_env = spawn_timeout,
      files0 = {}\<rparr>"

text \<open>A whole run in which all three calls succeed.\<close>

definition run_all_ok :: main_env where
  "run_all_ok =
     \<lparr>found_paths = [[''benchmarks'', ''100.webapps'', ''110.dynamic-html'', ''python'', ''function.py'']],
      summary_env = env_ok, full_env = env_ok, python_env = spawn_ok,
      files0 = {}\<rparr>"

text \<open>A whole run over a tree that has no workload named like \<open>110.dynamic-html\<close>.\<close>

definition run_no_target :: main_env where
  "run_no_target =
     \<lparr>found_paths = [[''benchmarks'', ''000.microbenchmarks'', ''010.sleep'', ''python'', ''function.py'']],
      summary_env = env_ok, full_env = env_ok, python_env = spawn_ok,
      files0 = {}\<rparr>"

text \<open>
  A whole run over a tree whose only workload has a name without an entry in the table
  of inputs.
\<close>

definition run_unmapped :: main_env where
  "run_unmapped =
     \<lparr>found_paths = [[''benchmarks'', ''100.webapps'', ''110.dynamic-html-v2'', ''python'', ''function.py'']],
      summary_env = env_ok, full_env = env_ok, python_env = spawn_ok,
      files0 = {}\<rparr>"

text \<open>
  A whole run in which the handler returns the unprintable object: the attach calls
  succeed with it, and the runs of the script print its \<open>repr\<close>.
\<close>

definition process_bad :: completed_process where
  "process_bad =
     \<lparr>returncode = 0, stdout = ''<func_module.Bad object at 0x7f3a5c0e2e90>\<newline>'', stderr = []\<rparr>"

definition spawn_bad :: spawn_env where
  "spawn_bad =
     \<lparr>create_script = Returned ''/tmp/tmpk3v9x2ab.py'', write_script = Returned (),
      run_summary = Returned process_bad, run_full = Returned process_bad,
      after_runs = (\<lambda>files. files)\<rparr>"

definition run_bad_object :: main_env where
  "run_bad_object =
     \<lparr>found_paths = [[''benchmarks'', ''100.webapps'', ''110.dynamic-html'', ''python'', ''function.py'']],
      summary_env = env_bad, full_env = env_bad, python_env = spawn_bad,
      files0 = {}\<rparr>"

text \<open>The run over the unmapped workload, with a handler that calls \<open>sys.exit(1)\<close>.\<close>

definition run_unmapped_exit :: main_env where
  "run_unmapped_exit =
     \<lparr>found_paths = [[''benchmarks'', ''100.webapps'', ''110.dynamic-html-v2'', ''python'', ''function.py'']],
      summary_env = env_exit, full_env = env_exit, python_env = spawn_ok,
      files0 = {}\<rparr>"

section \<open>Properties of attach mode\<close>

text \<open>The five paths through \<open>profile_function_in_runtime\<close>.\<close>

lemma attach_print_raised:
  assumes "py_str py (get_input_for_function self (name info)) = Raised e"
  shows "profile_function_in_runtime py self env info summary
           = (runtime_head info summary, Raised e, self)"
  using assms by (simp add: profile_function_in_runtime_def Let_def)

lemma attach_popen_raised:
  assumes "py_str py (get_input_for_function self (name info)) = Returned shown"
    and "popen env = Raised e"
  shows "profile_function_in_runtime py self env info summary
           = (runtime_head info summary
                @ [Print (''Input data: '' @ shown),
                   Popen (runtime_cmd_of (getpid env) (name info) summary)],
              except_exception e
                (runtime_failure (name info) (mode_str_of summary)
                   (get_input_for_function self (name info))),
              self)"
  using assms by (simp add: profile_function_in_runtime_def Let_def)

lemma attach_section_left:
  assumes "py_str py (get_input_for_function self (name info)) = Returned shown"
    and "popen env = Returned u"
    and "load_and_call env (function_path info) (get_input_for_function self (name info))
           = (called, input')"
    and "profiled_section called = Raised e"
  shows "profile_function_in_runtime py self env info summary
           = (runtime_head info summary
                @ [Print (''Input data: '' @ shown),
                   Popen (runtime_cmd_of (getpid env) (name info) summary), Sleep 1,
                   LoadAndCall (function_path info) (get_input_for_function self (name info))]
                @ cleanup_collector env,
              Raised e, store_input self (name info) input')"
  using assms by (simp add: profile_function_in_runtime_def Let_def)

lemma attach_stopped:
  assumes "py_str py (get_input_for_function self (name info)) = Returned shown"
    and "popen env = Returned u"
    and "load_and_call env (function_path info) (get_input_for_function self (name info))
           = (called, input')"
    and "profiled_section called = Returned (fresult, error_msg)"
    and "sigint_wait env = Returned w"
  shows "profile_function_in_runtime py self env info summary
           = (runtime_head info summary
                @ [Print (''Input data: '' @ shown),
                   Popen (runtime_cmd_of (getpid env) (name info) summary), Sleep 1,
                   LoadAndCall (function_path info) (get_input_for_function self (name info)),
                   SendSigint, Wait 10,
                   Print (''Runtime strace file saved: '' @ runtime_file_of (name info) summary),
                   Poll],
              Returned
                \<lparr>function_name = name info,
                 profiling_mode = ''runtime_'' @ mode_str_of summary,
                 success = True, function_result = Some fresult,
                 error = error_msg, input_data = input',
                 strace_file = Some (runtime_file_of (name info) summary),
                 strace_summary_file = None, strace_full_file = None,
                 res_stdout = None, res_stderr = None\<rparr>,
              store_input self (name info) input')"
  using assms by (simp add: profile_function_in_runtime_def Let_def)

lemma attach_wait_raised:
  assumes "py_str py (get_input_for_function self (name info)) = Returned shown"
    and "popen env = Returned u"
    and "load_and_call env (function_path info) (get_input_for_function self (name info))
           = (called, input')"
    and "profiled_section called = Returned (fresult, error_msg)"
    and "sigint_wait env = Raised e"
  shows "profile_function_in_runtime py self env info summary
           = (runtime_head info summary
                @ [Print (''Input data: '' @ shown),
                   Popen (runtime_cmd_of (getpid env) (name info) summary), Sleep 1,
                   LoadAndCall (function_path info) (get_input_for_function self (name info)),
                   SendSigint, Wait 10]
                @ cleanup_collector env,
              except_exception e
                (runtime_failure (name info) (mode_str_of summary) input'),
              store_input self (name info) input')"
  using assms by (simp add: profile_function_in_runtime_def Let_def)

text \<open>Every call takes one of the five paths.\<close>

lemma attach_paths:
  obtains (print_raised) e where
      "py_str py (get_input_for_function self (name info)) = Raised e"
    | (popen_raised) shown e where
      "py_str py (get_input_for_function self (name info)) = Returned shown"
      "popen env = Raised e"
    | (section_left) shown u called input' e where
      "py_str py (get_input_for_function self (name info)) = Returned shown"
      "popen env = Returned u"
      "load_and_call env (function_path info) (get_input_for_function self (name info))
         = (called, input')"
      "profiled_section called = Raised e"
    | (stopped) shown u called input' fresult error_msg w where
      "py_str py (get_input_for_function self (name info)) = Returned shown"
      "popen env = Returned u"
      "load_and_call env (function_path info) (get_input_for_function self (name info))
         = (called, input')"
      "profiled_section called = Returned (fresult, error_msg)"
      "sigint_wait env = Returned w"
    | (wait_raised) shown u called input' fresult error_msg e where
      "py_str py (get_input_for_function self (name info)) = Returned shown"
      "popen env = Returned u"
      "load_and_call env (function_path info) (get_input_for_function self (name info))
         = (called, input')"
      "profiled_section called = Returned (fresult, error_msg)"
      "sigint_wait env = Raised e"
proof (cases "py_str py (get_input_for_function self (name info))")
  case (Raised e)
  then show ?thesis by (rule print_raised)
next
  case shown: (Returned shown)
  show ?thesis
  proof (cases "popen env")
    case (Raised e)
    with shown show ?thesis by (rule popen_raised)
  next
    case u: (Returned u)
    obtain called input' where c:
      "load_and_call env (function_path info) (get_input_for_function self (name info))
         = (called, input')"
      by (cases "load_and_call env (function_path info) (get_input_for_function self (name info))")
    show ?thesis
    proof (cases "profiled_section called")
      case (Raised e)
      with shown u c show ?thesis by (rule section_left)
    next
      case (Returned p)
      obtain fresult error_msg where p: "p = (fresult, error_msg)" by (cases p)
      show ?thesis
      proof (cases "sigint_wait env")
        case w: (Returned w)
        from shown u c Returned [unfolded p] w show ?thesis by (rule stopped)
      next
        case e: (Raised e)
        from shown u c Returned [unfolded p] e show ?thesis by (rule wait_raised)
      qed
    qed
  qed
qed

text \<open>
  The interrupt is sent exactly when the input was printed, the collector started, and
  the workload returned or raised an \<open>Exception\<close>.
\<close>

lemma attach_sigint_sent:
  assumes "SendSigint \<in> set (fst (profile_function_in_runtime py self env info summary))"
  obtains shown u called input' fresult error_msg where
    "py_str py (get_input_for_function self (name info)) = Returned shown"
    "popen env = Returned u"
    "load_and_call env (function_path info) (get_input_for_function self (name info))
       = (called, input')"
    "profiled_section called = Returned (fresult, error_msg)"
proof (cases rule: attach_paths [where py = py and self = self and info = info and env = env])
  case (print_raised e)
  from assms show ?thesis
    by (simp add: attach_print_raised [OF print_raised] runtime_head_def)
next
  case (popen_raised shown e)
  from assms show ?thesis
    by (simp add: attach_popen_raised [OF popen_raised] runtime_head_def)
next
  case (section_left shown u called input' e)
  from assms show ?thesis
    by (simp add: attach_section_left [OF section_left] runtime_head_def cleanup_collector_def)
next
  case (stopped shown u called input' fresult error_msg w)
  then show ?thesis using that by blast
next
  case (wait_raised shown u called input' fresult error_msg e)
  then show ?thesis using that by blast
qed

lemma profiled_section_error:
  "profiled_section called = Returned (fresult, Some m) \<Longrightarrow> fresult = PNone"
  by (auto simp: profiled_section_def split: outcome.splits if_splits)

lemma runtime_failure_fields:
  "\<not> success (runtime_failure n s i m)"
  "function_result (runtime_failure n s i m) = None"
  "error (runtime_failure n s i m) = Some m"
  "input_data (runtime_failure n s i m) = i"
  "strace_file (runtime_failure n s i m) = None"
  by (simp_all add: runtime_failure_def)

text \<open>
  C2, as the code has it. When the interrupt was sent and the bounded wait after it
  expires, the \<open>TimeoutExpired\<close> is caught by the outer handler: the call returns a result
  with \<open>success\<close> false, the timeout's text as \<open>error\<close> and no \<open>function_result\<close>. The
  cleanup block then polls the collector and, if it is still running, terminates it and
  waits up to five seconds: the effects of the call end with the interrupt, the bounded
  wait, the poll and that escalation.
\<close>

theorem stop_timeout_reports_failure:
  assumes "SendSigint \<in> set (fst (profile_function_in_runtime py self env info summary))"
    and "sigint_wait env = Raised (TimeoutExpired m)"
  shows "(\<exists>r. fst (snd (profile_function_in_runtime py self env info summary)) = Returned r
             \<and> \<not> success r \<and> error r = Some m \<and> function_result r = None)
       \<and> suffix ([SendSigint, Wait 10, Poll] @ (if poll_running env then [Terminate, Wait 5] else []))
                (fst (profile_function_in_runtime py self env info summary))"
proof -
  from assms(1) obtain shown u called input' fresult error_msg where p:
    "py_str py (get_input_for_function self (name info)) = Returned shown"
    "popen env = Returned u"
    "load_and_call env (function_path info) (get_input_for_function self (name info))
       = (called, input')"
    "profiled_section called = Returned (fresult, error_msg)"
    by (rule attach_sigint_sent)
  note R = attach_wait_raised [OF p assms(2), where summary = summary]
  have a: "\<exists>r. fst (snd (profile_function_in_runtime py self env info summary)) = Returned r
             \<and> \<not> success r \<and> error r = Some m \<and> function_result r = None"
    unfolding R by (simp add: except_exception_def runtime_failure_fields)
  have b: "suffix ([SendSigint, Wait 10, Poll] @ (if poll_running env then [Terminate, Wait 5] else []))
                (fst (profile_function_in_runtime py self env info summary))"
    unfolding R by (simp add: suffix_def cleanup_collector_def)
  from a b show ?thesis by (rule conjI)
qed

theorem stop_timeout_reports_failure_witness:
  "SendSigint \<in> set (fst (profile_function_in_runtime sample_interp (init []) env_collector_hangs
                            dynamic_html True))
   \<and> sigint_wait env_collector_hangs = Raised (TimeoutExpired ''Command timed out after 10 seconds'')
   \<and> (\<exists>r. fst (snd (profile_function_in_runtime sample_interp (init []) env_collector_hangs
                      dynamic_html True)) = Returned r
          \<and> \<not> success r \<and> error r = Some ''Command timed out after 10 seconds''
          \<and> function_result r = None)
   \<and> suffix [SendSigint, Wait 10, Poll, Terminate, Wait 5]
        (fst (profile_function_in_runtime sample_interp (init []) env_collector_hangs
                dynamic_html True))"
proof -
  have a: "SendSigint \<in> set (fst (profile_function_in_runtime sample_interp (init [])
                                    env_collector_hangs dynamic_html True))"
    by (simp add: profile_function_in_runtime_def Let_def sample_interp_def bad_object_def
          env_collector_hangs_def call_returns_42_def profiled_section_def
          dynamic_html_def get_input_for_function_def init_def correct_inputs_table_def)
  have b: "sigint_wait env_collector_hangs
             = Raised (TimeoutExpired ''Command timed out after 10 seconds'')"
    by (simp add: env_collector_hangs_def)
  have c: "poll_running env_collector_hangs"
    by (simp add: env_collector_hangs_def)
  note t = stop_timeout_reports_failure [OF a b]
  from t c have d: "suffix [SendSigint, Wait 10, Poll, Terminate, Wait 5]
        (fst (profile_function_in_runtime sample_interp (init []) env_collector_hangs
                dynamic_html True))"
    by simp
  from a b t [THEN conjunct1] d show ?thesis by (intro conjI)
qed

text \<open>
  C2 as the specification states it fails: with a collector that does not exit within
  the bounded wait, the escalation happens and the call returns the failure dictionary,
  whose \<open>success\<close> is false.
\<close>

theorem stop_timeout_success_counterexample:
  "sigint_wait env_collector_hangs = Raised (TimeoutExpired ''Command timed out after 10 seconds'')
   \<and> Terminate \<in> set (fst (profile_function_in_runtime sample_interp (init []) env_collector_hangs
                             dynamic_html True))
   \<and> fst (snd (profile_function_in_runtime sample_interp (init []) env_collector_hangs
                 dynamic_html True))
       = Returned (runtime_failure ''110.dynamic-html'' ''summary''
                     (PDict [(''username'', PStr ''testuser''), (''random_len'', PInt 10)])
                     ''Command timed out after 10 seconds'')
   \<and> \<not> success (runtime_failure ''110.dynamic-html'' ''summary''
                     (PDict [(''username'', PStr ''testuser''), (''random_len'', PInt 10)])
                     ''Command timed out after 10 seconds'')"
  by (simp add: profile_function_in_runtime_def Let_def sample_interp_def bad_object_def
        env_collector_hangs_def call_returns_42_def profiled_section_def
        except_exception_def cleanup_collector_def mode_str_of_def dynamic_html_def
        get_input_for_function_def init_def correct_inputs_table_def runtime_failure_def)

text \<open>
  C3, as the code has it. Let the input be printed, the collector be started, and
  loading the module or calling the handler raise \<open>e\<close>. If \<open>e\<close> is an \<open>Exception\<close>, the
  interrupt is sent and the bounded wait made right after the workload; when the
  collector exits within that wait the result has \<open>success\<close> true, the text of \<open>e\<close> as
  \<open>error\<close> and \<open>None\<close> as \<open>function_result\<close>; when the wait raises an \<open>Exception\<close>
  instead, the result has \<open>success\<close> false and the text of that second exception as
  \<open>error\<close>. If \<open>e\<close> is not an \<open>Exception\<close> (\<open>SystemExit\<close>, \<open>KeyboardInterrupt\<close>), no
  handler catches it: no interrupt is sent, the cleanup block polls the collector and
  terminates it if it still runs, and \<open>e\<close> leaves the call, which returns no result.
\<close>

theorem workload_fault_keeps_stop_protocol:
  assumes "py_str py (get_input_for_function self (name info)) = Returned shown"
    and "popen env = Returned ()"
    and "fst (load_and_call env (function_path info) (get_input_for_function self (name info)))
           = Raised e"
  shows "(is_exception e \<longrightarrow>
            (\<exists>pre post. fst (profile_function_in_runtime py self env info summary)
               = pre @ [LoadAndCall (function_path info) (get_input_for_function self (name info)),
                        SendSigint, Wait 10] @ post)
          \<and> (sigint_wait env = Returned () \<longrightarrow>
               (\<exists>r. fst (snd (profile_function_in_runtime py self env info summary)) = Returned r
                  \<and> success r \<and> error r = Some (str_exn e) \<and> function_result r = Some PNone))
          \<and> (\<forall>e'. sigint_wait env = Raised e' \<and> is_exception e' \<longrightarrow>
               (\<exists>r. fst (snd (profile_function_in_runtime py self env info summary)) = Returned r
                  \<and> \<not> success r \<and> error r = Some (str_exn e') \<and> function_result r = None)))
       \<and> (\<not> is_exception e \<longrightarrow>
            fst (snd (profile_function_in_runtime py self env info summary)) = Raised e
          \<and> SendSigint \<notin> set (fst (profile_function_in_runtime py self env info summary))
          \<and> suffix ([LoadAndCall (function_path info) (get_input_for_function self (name info)), Poll]
                     @ (if poll_running env then [Terminate, Wait 5] else []))
                   (fst (profile_function_in_runtime py self env info summary)))"
proof -
  let ?R = "profile_function_in_runtime py self env info summary"
  let ?call = "LoadAndCall (function_path info) (get_input_for_function self (name info))"
  obtain called input' where c:
    "load_and_call env (function_path info) (get_input_for_function self (name info))
       = (called, input')"
    by (cases "load_and_call env (function_path info) (get_input_for_function self (name info))")
  with assms(3) have called: "called = Raised e" by simp
  have caught: "(\<exists>pre post. fst ?R = pre @ [?call, SendSigint, Wait 10] @ post)
          \<and> (sigint_wait env = Returned () \<longrightarrow>
               (\<exists>r. fst (snd ?R) = Returned r
                  \<and> success r \<and> error r = Some (str_exn e) \<and> function_result r = Some PNone))
          \<and> (\<forall>e'. sigint_wait env = Raised e' \<and> is_exception e' \<longrightarrow>
               (\<exists>r. fst (snd ?R) = Returned r
                  \<and> \<not> success r \<and> error r = Some (str_exn e') \<and> function_result r = None))"
    if e: "is_exception e"
  proof -
    from called e have s: "profiled_section called = Returned (PNone, Some (str_exn e))"
      by (simp add: profiled_section_def)
    show ?thesis
    proof (cases "sigint_wait env")
      case (Returned w)
      note R = attach_stopped [OF assms(1) assms(2) c s Returned, where summary = summary]
      have "fst ?R = (runtime_head info summary
                @ [Print (''Input data: '' @ shown),
                   Popen (runtime_cmd_of (getpid env) (name info) summary), Sleep 1])
              @ [?call, SendSigint, Wait 10]
              @ [Print (''Runtime strace file saved: '' @ runtime_file_of (name info) summary), Poll]"
        unfolding R by simp
      then have tr: "\<exists>pre post. fst ?R = pre @ [?call, SendSigint, Wait 10] @ post"
        by blast
      have ok: "\<exists>r. fst (snd ?R) = Returned r
                  \<and> success r \<and> error r = Some (str_exn e) \<and> function_result r = Some PNone"
        unfolding R by simp
      from tr ok Returned show ?thesis by simp
    next
      case (Raised e')
      note R = attach_wait_raised [OF assms(1) assms(2) c s Raised, where summary = summary]
      have "fst ?R = (runtime_head info summary
                @ [Print (''Input data: '' @ shown),
                   Popen (runtime_cmd_of (getpid env) (name info) summary), Sleep 1])
              @ [?call, SendSigint, Wait 10] @ cleanup_collector env"
        unfolding R by simp
      then have tr: "\<exists>pre post. fst ?R = pre @ [?call, SendSigint, Wait 10] @ post"
        by blast
      have ko: "is_exception e' \<longrightarrow> (\<exists>r. fst (snd ?R) = Returned r
                  \<and> \<not> success r \<and> error r = Some (str_exn e') \<and> function_result r = None)"
        unfolding R by (simp add: except_exception_def runtime_failure_fields)
      from tr ko Raised show ?thesis by simp
    qed
  qed
  have passed: "fst (snd ?R) = Raised e \<and> SendSigint \<notin> set (fst ?R)
          \<and> suffix ([?call, Poll] @ (if poll_running env then [Terminate, Wait 5] else [])) (fst ?R)"
    if e: "\<not> is_exception e"
  proof -
    from called e have s: "profiled_section called = Raised e"
      by (simp add: profiled_section_def)
    note R = attach_section_left [OF assms(1) assms(2) c s, where summary = summary]
    show ?thesis
      unfolding R by (simp add: runtime_head_def cleanup_collector_def suffix_def)
  qed
  from caught passed show ?thesis by blast
qed

theorem workload_fault_keeps_stop_protocol_witness:
  "py_str sample_interp (get_input_for_function (init []) (name dynamic_html))
     = Returned ''{'username': 'testuser', 'random_len': 10}''
   \<and> popen env_fault = Returned ()
   \<and> fst (load_and_call env_fault (function_path dynamic_html)
            (get_input_for_function (init []) (name dynamic_html))) = Raised (Exception ''boom'')
   \<and> is_exception (Exception ''boom'')
   \<and> sigint_wait env_fault = Returned ()
   \<and> (\<exists>r. fst (snd (profile_function_in_runtime sample_interp (init []) env_fault dynamic_html False))
            = Returned r
          \<and> success r \<and> error r = Some ''boom'' \<and> function_result r = Some PNone)"
proof -
  have a: "py_str sample_interp (get_input_for_function (init []) (name dynamic_html))
             = Returned ''{'username': 'testuser', 'random_len': 10}''"
    by code_simp
  have b: "popen env_fault = Returned ()"
    by (simp add: env_fault_def)
  have c: "fst (load_and_call env_fault (function_path dynamic_html)
            (get_input_for_function (init []) (name dynamic_html))) = Raised (Exception ''boom'')"
    by (simp add: env_fault_def call_raises_boom_def)
  have d: "is_exception (Exception ''boom'')"
    by simp
  have e: "sigint_wait env_fault = Returned ()"
    by (simp add: env_fault_def)
  note t = workload_fault_keeps_stop_protocol [OF a b c, where summary = False]
  from t d have t': "sigint_wait env_fault = Returned () \<longrightarrow>
       (\<exists>r. fst (snd (profile_function_in_runtime sample_interp (init []) env_fault dynamic_html False))
            = Returned r
          \<and> success r \<and> error r = Some (str_exn (Exception ''boom''))
          \<and> function_result r = Some PNone)"
    by blast
  from t' e have f: "\<exists>r. fst (snd (profile_function_in_runtime sample_interp (init []) env_fault dynamic_html False))
            = Returned r
          \<and> success r \<and> error r = Some ''boom'' \<and> function_result r = Some PNone"
    by simp
  from a b c d e f show ?thesis by (intro conjI)
qed

text \<open>
  C3 as the specification states it fails, in two ways. The handler raises \<open>boom\<close> and
  the collector does not stop in time: the call returns the failure dictionary, with
  \<open>success\<close> false and the timeout as \<open>error\<close>, not \<open>boom\<close>. The handler calls
  \<open>sys.exit(1)\<close>: no interrupt is sent and the call returns no result, the \<open>SystemExit\<close>
  leaves it.
\<close>

theorem workload_fault_success_counterexample:
  "fst (load_and_call env_fault_and_hang (function_path dynamic_html)
          (get_input_for_function (init []) (name dynamic_html))) = Raised (Exception ''boom'')
   \<and> fst (snd (profile_function_in_runtime sample_interp (init []) env_fault_and_hang
                 dynamic_html True))
       = Returned (runtime_failure ''110.dynamic-html'' ''summary''
                     (PDict [(''username'', PStr ''testuser''), (''random_len'', PInt 10)])
                     ''Command timed out after 10 seconds'')
   \<and> \<not> success (runtime_failure ''110.dynamic-html'' ''summary''
                     (PDict [(''username'', PStr ''testuser''), (''random_len'', PInt 10)])
                     ''Command timed out after 10 seconds'')
   \<and> error (runtime_failure ''110.dynamic-html'' ''summary''
                     (PDict [(''username'', PStr ''testuser''), (''random_len'', PInt 10)])
                     ''Command timed out after 10 seconds'') \<noteq> Some ''boom''
   \<and> fst (load_and_call env_exit (function_path dynamic_html)
          (get_input_for_function (init []) (name dynamic_html))) = Raised (BaseException ''1'')
   \<and> fst (snd (profile_function_in_runtime sample_interp (init []) env_exit dynamic_html True))
       = Raised (BaseException ''1'')
   \<and> SendSigint \<notin> set (fst (profile_function_in_runtime sample_interp (init []) env_exit
                             dynamic_html True))"
  by (simp add: profile_function_in_runtime_def Let_def sample_interp_def bad_object_def
        env_fault_and_hang_def env_exit_def call_raises_boom_def call_exits_def
        profiled_section_def except_exception_def cleanup_collector_def mode_str_of_def
        dynamic_html_def get_input_for_function_def init_def correct_inputs_table_def
        runtime_failure_def runtime_head_def)

section \<open>Properties of spawn mode\<close>

lemma startswith_split1:
  "startswith s ''ERROR:'' \<Longrightarrow> split1 ''ERROR:'' s = Some ([], drop 6 s)"
  by (cases s) (auto simp: startswith_def eval_nat_numeral)

text \<open>The index into the result of \<open>split\<close> is guarded by \<open>startswith\<close>: it never raises.\<close>

lemma parse_output_returns: "\<exists>v m. parse_output py fr rs = Returned (v, m)"
  by (simp add: parse_output_def Let_def startswith_split1 split: option.splits)

lemma parse_output_error_no_value:
  "parse_output py fr rs = Returned (v, Some m) \<Longrightarrow> v = PNone"
  by (auto simp: parse_output_def Let_def split: if_splits option.splits)

lemma parse_output_exit_zero:
  "returncode rs = 0 \<Longrightarrow>
   parse_output py fr rs
     = Returned (if py_strip (stdout rs) \<noteq> [] \<and> \<not> startswith (py_strip (stdout rs)) ''ERROR:''
                 then (case py_eval py fr (py_strip (stdout rs)) of Some v \<Rightarrow> v | None \<Rightarrow> PNone)
                 else PNone, None)"
  by (simp add: parse_output_def Let_def split: option.splits)

lemma parse_output_error_line:
  "returncode rs \<noteq> 0 \<Longrightarrow> startswith (stdout rs) ''ERROR:'' \<Longrightarrow>
   parse_output py fr rs = Returned (PNone, Some (py_strip (drop 6 (stdout rs))))"
  by (auto simp: parse_output_def startswith_split1 startswith_def)

lemma parse_output_exit_code:
  "returncode rs \<noteq> 0 \<Longrightarrow> \<not> startswith (stdout rs) ''ERROR:'' \<Longrightarrow>
   parse_output py fr rs
     = Returned (PNone,
         Some (''Process failed with exit code '' @ py_int_str (returncode rs)
               @ (if stderr rs \<noteq> [] then '': '' @ stderr rs else [])))"
  by (simp add: parse_output_def)

text \<open>The frame matters to the outcome only through what \<open>eval\<close> answers in it.\<close>

lemma parse_output_frame:
  "py_eval py fr' (py_strip (stdout rs)) = py_eval py fr (py_strip (stdout rs))
   \<Longrightarrow> parse_output py fr' rs = parse_output py fr rs"
  by (simp add: parse_output_def Let_def)

lemma cleanup_script_removes: "p \<notin> cleanup_script p files"
  by (simp add: cleanup_script_def unlink_def)

lemma fullpython_failure_fields:
  "\<not> success (fullpython_failure n m i)"
  "function_result (fullpython_failure n m i) = None"
  "error (fullpython_failure n m i) = Some m"
  "input_data (fullpython_failure n m i) = i"
  "strace_summary_file (fullpython_failure n m i) = None"
  "strace_full_file (fullpython_failure n m i) = None"
  by (simp_all add: fullpython_failure_def)

lemma fullpython_except_returned:
  "fullpython_except n e i = Returned r \<Longrightarrow>
     \<not> success r \<and> function_result r = None \<and> error r \<noteq> None \<and> input_data r = i
     \<and> strace_summary_file r = None \<and> strace_full_file r = None"
  by (cases e) (auto simp: fullpython_except_def fullpython_failure_def)

lemma fullpython_except_timeout:
  "fullpython_except n (TimeoutExpired m) i
     = Returned (fullpython_failure n ''Full Python execution timed out'' i)"
  by (simp add: fullpython_except_def)

text \<open>The paths through \<open>profile_full_python\<close>.\<close>

lemma spawn_print_raised:
  assumes "py_str py (get_input_for_function self (name info)) = Raised e"
  shows "profile_full_python py self env info files = (fullpython_head info, Raised e, files)"
  using assms by (simp add: profile_full_python_def Let_def)

lemma spawn_create_raised:
  assumes "py_str py (get_input_for_function self (name info)) = Returned shown"
    and "create_script env = Raised e"
  shows "profile_full_python py self env info files
           = (fullpython_head info @ [Print (''Input data: '' @ shown)], Raised e, files)"
  using assms by (simp add: profile_full_python_def Let_def)

lemma spawn_repr_raised:
  assumes "py_str py (get_input_for_function self (name info)) = Returned shown"
    and "create_script env = Returned script"
    and "py_repr py (get_input_for_function self (name info)) = Raised e"
  shows "profile_full_python py self env info files
           = (fullpython_head info @ [Print (''Input data: '' @ shown), MakeTemp script],
              Raised e, insert script files)"
  using assms by (simp add: profile_full_python_def Let_def)

lemma spawn_write_raised:
  assumes "py_str py (get_input_for_function self (name info)) = Returned shown"
    and "create_script env = Returned script"
    and "py_repr py (get_input_for_function self (name info)) = Returned input_repr"
    and "write_script env = Raised e"
  shows "profile_full_python py self env info files
           = (fullpython_head info @ [Print (''Input data: '' @ shown), MakeTemp script],
              Raised e, insert script files)"
  using assms by (simp add: profile_full_python_def Let_def)

lemma spawn_summary_raised:
  assumes "py_str py (get_input_for_function self (name info)) = Returned shown"
    and "create_script env = Returned script"
    and "py_repr py (get_input_for_function self (name info)) = Returned input_repr"
    and "write_script env = Returned u"
    and "run_summary env = Raised e"
  shows "profile_full_python py self env info files
           = (script_written info shown script input_repr
                @ [Run (summary_cmd_of (name info) script) 60, Unlink script],
              fullpython_except (name info) e (get_input_for_function self (name info)),
              cleanup_script script (after_runs env (insert script files)))"
  using assms by (simp add: profile_full_python_def Let_def)

lemma spawn_full_raised:
  assumes "py_str py (get_input_for_function self (name info)) = Returned shown"
    and "create_script env = Returned script"
    and "py_repr py (get_input_for_function self (name info)) = Returned input_repr"
    and "write_script env = Returned u"
    and "run_summary env = Returned rs"
    and "run_full env = Raised e"
  shows "profile_full_python py self env info files
           = (script_written info shown script input_repr
                @ [Run (summary_cmd_of (name info) script) 60,
                   Run (full_cmd_of (name info) script) 60, Unlink script],
              fullpython_except (name info) e (get_input_for_function self (name info)),
              cleanup_script script (after_runs env (insert script files)))"
  using assms by (simp add: profile_full_python_def Let_def)

lemma spawn_completed:
  assumes "py_str py (get_input_for_function self (name info)) = Returned shown"
    and "create_script env = Returned script"
    and "py_repr py (get_input_for_function self (name info)) = Returned input_repr"
    and "write_script env = Returned u"
    and "run_summary env = Returned rs"
    and "run_full env = Returned rf"
    and "parse_output py (spawn_frame self info script input_repr rs rf) rs
           = Returned (fresult, error_msg)"
  shows "profile_full_python py self env info files
           = (script_written info shown script input_repr
                @ [Run (summary_cmd_of (name info) script) 60,
                   Run (full_cmd_of (name info) script) 60]
                @ files_saved (name info) @ [Unlink script],
              Returned
                \<lparr>function_name = name info, profiling_mode = ''full_python'',
                 success = True, function_result = Some fresult, error = error_msg,
                 input_data = get_input_for_function self (name info), strace_file = None,
                 strace_summary_file = Some (summary_file_of (name info)),
                 strace_full_file = Some (full_file_of (name info)),
                 res_stdout = Some (stdout rs), res_stderr = Some (stderr rs)\<rparr>,
              cleanup_script script (after_runs env (insert script files)))"
  using assms by (simp add: profile_full_python_def Let_def)

text \<open>Every call takes one of these paths.\<close>

lemma spawn_paths:
  obtains (print_raised) e where
      "py_str py (get_input_for_function self (name info)) = Raised e"
    | (create_raised) shown e where
      "py_str py (get_input_for_function self (name info)) = Returned shown"
      "create_script env = Raised e"
    | (repr_raised) shown script e where
      "py_str py (get_input_for_function self (name info)) = Returned shown"
      "create_script env = Returned script"
      "py_repr py (get_input_for_function self (name info)) = Raised e"
    | (write_raised) shown script input_repr e where
      "py_str py (get_input_for_function self (name info)) = Returned shown"
      "create_script env = Returned script"
      "py_repr py (get_input_for_function self (name info)) = Returned input_repr"
      "write_script env = Raised e"
    | (summary_raised) shown script input_repr u e where
      "py_str py (get_input_for_function self (name info)) = Returned shown"
      "create_script env = Returned script"
      "py_repr py (get_input_for_function self (name info)) = Returned input_repr"
      "write_script env = Returned u"
      "run_summary env = Raised e"
    | (full_raised) shown script input_repr u rs e where
      "py_str py (get_input_for_function self (name info)) = Returned shown"
      "create_script env = Returned script"
      "py_repr py (get_input_for_function self (name info)) = Returned input_repr"
      "write_script env = Returned u"
      "run_summary env = Returned rs"
      "run_full env = Raised e"
    | (completed) shown script input_repr u rs rf fresult error_msg where
      "py_str py (get_input_for_function self (name info)) = Returned shown"
      "create_script env = Returned script"
      "py_repr py (get_input_for_function self (name info)) = Returned input_repr"
      "write_script env = Returned u"
      "run_summary env = Returned rs"
      "run_full env = Returned rf"
      "parse_output py (spawn_frame self info script input_repr rs rf) rs
         = Returned (fresult, error_msg)"
proof (cases "py_str py (get_input_for_function self (name info))")
  case (Raised e)
  then show ?thesis by (rule print_raised)
next
  case shown: (Returned shown)
  show ?thesis
  proof (cases "create_script env")
    case (Raised e)
    with shown show ?thesis by (rule create_raised)
  next
    case script: (Returned script)
    show ?thesis
    proof (cases "py_repr py (get_input_for_function self (name info))")
      case (Raised e)
      with shown script show ?thesis by (rule repr_raised)
    next
      case input_repr: (Returned input_repr)
      show ?thesis
      proof (cases "write_script env")
        case (Raised e)
        with shown script input_repr show ?thesis by (rule write_raised)
      next
        case u: (Returned u)
        show ?thesis
        proof (cases "run_summary env")
          case (Raised e)
          with shown script input_repr u show ?thesis by (rule summary_raised)
        next
          case rs: (Returned rs)
          show ?thesis
          proof (cases "run_full env")
            case (Raised e)
            with shown script input_repr u rs show ?thesis by (rule full_raised)
          next
            case rf: (Returned rf)
            obtain fresult error_msg where
              "parse_output py (spawn_frame self info script input_repr rs rf) rs
                 = Returned (fresult, error_msg)"
              using parse_output_returns by blast
            with shown script input_repr u rs rf show ?thesis by (rule completed)
          qed
        qed
      qed
    qed
  qed
qed

text \<open>
  A run is started exactly when the input was printed and the script created and
  written.
\<close>

lemma spawn_run_started:
  assumes "Run cmd t \<in> set (fst (profile_full_python py self env info files))"
  obtains shown script input_repr u where
    "py_str py (get_input_for_function self (name info)) = Returned shown"
    "create_script env = Returned script"
    "py_repr py (get_input_for_function self (name info)) = Returned input_repr"
    "write_script env = Returned u"
proof (cases rule: spawn_paths [where py = py and self = self and info = info and env = env])
  case (print_raised e)
  from assms show ?thesis
    by (simp add: spawn_print_raised [OF print_raised] fullpython_head_def)
next
  case (create_raised shown e)
  from assms show ?thesis
    by (simp add: spawn_create_raised [OF create_raised] fullpython_head_def)
next
  case (repr_raised shown script e)
  from assms show ?thesis
    by (simp add: spawn_repr_raised [OF repr_raised] fullpython_head_def)
next
  case (write_raised shown script input_repr e)
  from assms show ?thesis
    by (simp add: spawn_write_raised [OF write_raised] fullpython_head_def)
next
  case (summary_raised shown script input_repr u e)
  then show ?thesis using that by blast
next
  case (full_raised shown script input_repr u rs e)
  then show ?thesis using that by blast
next
  case (completed shown script input_repr u rs rf fresult error_msg)
  then show ?thesis using that by blast
qed

text \<open>After a run was started, the call ends with the removal of the script.\<close>

lemma spawn_script_removed:
  assumes "py_str py (get_input_for_function self (name info)) = Returned shown"
    and "create_script env = Returned script"
    and "py_repr py (get_input_for_function self (name info)) = Returned input_repr"
    and "write_script env = Returned u"
  shows "script \<notin> snd (snd (profile_full_python py self env info files))
       \<and> last (fst (profile_full_python py self env info files)) = Unlink script"
proof (cases "run_summary env")
  case (Raised e)
  show ?thesis
    unfolding spawn_summary_raised [OF assms Raised]
    by (simp add: cleanup_script_removes)
next
  case rs: (Returned rs)
  show ?thesis
  proof (cases "run_full env")
    case (Raised e)
    show ?thesis
      unfolding spawn_full_raised [OF assms rs Raised]
      by (simp add: cleanup_script_removes)
  next
    case rf: (Returned rf)
    obtain fresult error_msg where p:
      "parse_output py (spawn_frame self info script input_repr rs rf) rs
         = Returned (fresult, error_msg)"
      using parse_output_returns by blast
    show ?thesis
      unfolding spawn_completed [OF assms rs rf p]
      by (simp add: cleanup_script_removes)
  qed
qed

lemma spawn_timed_out:
  assumes "py_str py (get_input_for_function self (name info)) = Returned shown"
    and "create_script env = Returned script"
    and "py_repr py (get_input_for_function self (name info)) = Returned input_repr"
    and "write_script env = Returned u"
    and "(\<exists>m. run_summary env = Raised (TimeoutExpired m))
        \<or> (\<exists>rs m. run_summary env = Returned rs \<and> run_full env = Raised (TimeoutExpired m))"
  shows "fst (snd (profile_full_python py self env info files))
           = Returned (fullpython_failure (name info) ''Full Python execution timed out''
                         (get_input_for_function self (name info)))"
  using assms(5)
proof (elim disjE exE conjE)
  fix m assume "run_summary env = Raised (TimeoutExpired m)"
  then show ?thesis
    by (simp add: spawn_summary_raised [OF assms(1-4)] fullpython_except_timeout)
next
  fix rs m assume "run_summary env = Returned rs" "run_full env = Raised (TimeoutExpired m)"
  then show ?thesis
    by (simp add: spawn_full_raised [OF assms(1-4)] fullpython_except_timeout)
qed

text \<open>The sample call of spawn mode: what is printed, and the script that is written.\<close>

lemma sample_shown:
  "py_str sample_interp (get_input_for_function (init []) (name dynamic_html))
     = Returned ''{'username': 'testuser', 'random_len': 10}''"
  by code_simp

lemma sample_repr:
  "py_repr sample_interp (get_input_for_function (init []) (name dynamic_html))
     = Returned ''{'username': 'testuser', 'random_len': 10}''"
  by code_simp

lemma sample_line_42: "py_strip (stdout process_42) = ''{'result': 42}''"
  by code_simp


lemma sample_line_object: "py_strip (stdout process_object) = ''<object object at 0x7f3a5c0e1d40>''"
  by code_simp

lemma sample_eval_object: "eval_literal ''<object object at 0x7f3a5c0e1d40>'' = None"
  by code_simp

lemma sample_eval: "py_eval sample_interp fr s = eval_literal s"
  by (simp add: sample_interp_def)

lemma int_str_one: "py_int_str 1 = ''1''"
  by code_simp

text \<open>
  C4. When a run was started, the script had been created, the last effect of the call
  is the \<open>unlink\<close> of that script, and the script is not among the files that exist when
  the call ends, whatever the two runs do. When the first run, or the second after the
  first has completed, raises \<open>TimeoutExpired\<close>, the call returns a result with \<open>success\<close>
  false, the text \<open>Full Python execution timed out\<close> as \<open>error\<close> and no
  \<open>function_result\<close>.
\<close>

theorem spawn_timeout_fails_and_script_removed:
  assumes "Run cmd t \<in> set (fst (profile_full_python py self env info files))"
  shows "(\<exists>script. create_script env = Returned script
            \<and> script \<notin> snd (snd (profile_full_python py self env info files))
            \<and> last (fst (profile_full_python py self env info files)) = Unlink script)
       \<and> ((\<exists>m. run_summary env = Raised (TimeoutExpired m))
            \<or> (\<exists>rs m. run_summary env = Returned rs \<and> run_full env = Raised (TimeoutExpired m))
          \<longrightarrow> (\<exists>r. fst (snd (profile_full_python py self env info files)) = Returned r
                 \<and> \<not> success r \<and> error r = Some ''Full Python execution timed out''
                 \<and> function_result r = None))"
proof -
  from assms obtain shown script input_repr u where p:
    "py_str py (get_input_for_function self (name info)) = Returned shown"
    "create_script env = Returned script"
    "py_repr py (get_input_for_function self (name info)) = Returned input_repr"
    "write_script env = Returned u"
    by (rule spawn_run_started)
  from spawn_script_removed [OF p, where files = files] p(2)
  have gone: "\<exists>script. create_script env = Returned script
            \<and> script \<notin> snd (snd (profile_full_python py self env info files))
            \<and> last (fst (profile_full_python py self env info files)) = Unlink script"
    by blast
  have timed: "\<exists>r. fst (snd (profile_full_python py self env info files)) = Returned r
                 \<and> \<not> success r \<and> error r = Some ''Full Python execution timed out''
                 \<and> function_result r = None"
    if "(\<exists>m. run_summary env = Raised (TimeoutExpired m))
        \<or> (\<exists>rs m. run_summary env = Returned rs \<and> run_full env = Raised (TimeoutExpired m))"
    using spawn_timed_out [OF p that, where files = files]
    by (simp add: fullpython_failure_fields)
  from gone timed show ?thesis by blast
qed

theorem spawn_timeout_fails_and_script_removed_witness:
  "Run (summary_cmd_of ''110.dynamic-html'' ''/tmp/tmpk3v9x2ab.py'') 60
     \<in> set (fst (profile_full_python sample_interp (init []) spawn_timeout dynamic_html {}))
   \<and> run_summary spawn_timeout = Raised (TimeoutExpired ''Command timed out after 60 seconds'')
   \<and> create_script spawn_timeout = Returned ''/tmp/tmpk3v9x2ab.py''
   \<and> ''/tmp/tmpk3v9x2ab.py''
       \<notin> snd (snd (profile_full_python sample_interp (init []) spawn_timeout dynamic_html {}))
   \<and> last (fst (profile_full_python sample_interp (init []) spawn_timeout dynamic_html {}))
       = Unlink ''/tmp/tmpk3v9x2ab.py''
   \<and> (\<exists>r. fst (snd (profile_full_python sample_interp (init []) spawn_timeout dynamic_html {}))
            = Returned r
          \<and> \<not> success r \<and> error r = Some ''Full Python execution timed out''
          \<and> function_result r = None)"
proof -
  have c: "create_script spawn_timeout = Returned ''/tmp/tmpk3v9x2ab.py''"
    and w: "write_script spawn_timeout = Returned ()"
    and s: "run_summary spawn_timeout = Raised (TimeoutExpired ''Command timed out after 60 seconds'')"
    by (simp_all add: spawn_timeout_def)
  have a: "Run (summary_cmd_of ''110.dynamic-html'' ''/tmp/tmpk3v9x2ab.py'') 60
     \<in> set (fst (profile_full_python sample_interp (init []) spawn_timeout dynamic_html {}))"
    unfolding spawn_summary_raised [OF sample_shown c sample_repr w s]
    by (simp add: dynamic_html_def)
  note t = spawn_timeout_fails_and_script_removed [OF a]
  from t [THEN conjunct1] c
  have g: "''/tmp/tmpk3v9x2ab.py''
       \<notin> snd (snd (profile_full_python sample_interp (init []) spawn_timeout dynamic_html {}))
     \<and> last (fst (profile_full_python sample_interp (init []) spawn_timeout dynamic_html {}))
       = Unlink ''/tmp/tmpk3v9x2ab.py''"
    by simp
  from s have s': "(\<exists>m. run_summary spawn_timeout = Raised (TimeoutExpired m))
        \<or> (\<exists>rs m. run_summary spawn_timeout = Returned rs
               \<and> run_full spawn_timeout = Raised (TimeoutExpired m))"
    by blast
  have r: "\<exists>r. fst (snd (profile_full_python sample_interp (init []) spawn_timeout dynamic_html {}))
            = Returned r
          \<and> \<not> success r \<and> error r = Some ''Full Python execution timed out''
          \<and> function_result r = None"
    using t [THEN conjunct2] s' by (rule mp)
  from a s c g r show ?thesis by blast
qed

text \<open>
  C5, as the code has it. When the script was written and both runs complete, the call
  returns a result whose outcome is read from what the summary run returned. With exit
  status 0, \<open>error\<close> is \<open>None\<close> and \<open>function_result\<close> is what \<open>eval\<close> makes of the stripped
  standard output (\<open>None\<close> when that text is empty, starts with \<open>ERROR:\<close> or makes \<open>eval\<close>
  raise). With another exit status and a standard output that starts with \<open>ERROR:\<close>,
  \<open>error\<close> is the stripped text after that prefix. Otherwise \<open>error\<close> is
  \<open>Process failed with exit code\<close> and the status, followed by a colon and standard error
  when that is not empty. What the full run returned is a local variable of the frame in
  which \<open>eval\<close> runs and is used nowhere else: replacing it by something on which \<open>eval\<close>
  answers the same changes nothing in the result.
\<close>

theorem outcome_read_from_summary_run:
  assumes "py_str py (get_input_for_function self (name info)) = Returned shown"
    and "create_script env = Returned script"
    and "py_repr py (get_input_for_function self (name info)) = Returned input_repr"
    and "write_script env = Returned ()"
    and "run_summary env = Returned rs"
    and "run_full env = Returned rf"
  shows "(\<exists>r. fst (snd (profile_full_python py self env info files)) = Returned r
           \<and> res_stdout r = Some (stdout rs) \<and> res_stderr r = Some (stderr rs)
           \<and> (returncode rs = 0 \<longrightarrow>
                error r = None
              \<and> function_result r
                  = Some (if py_strip (stdout rs) \<noteq> [] \<and> \<not> startswith (py_strip (stdout rs)) ''ERROR:''
                          then (case py_eval py (spawn_frame self info script input_repr rs rf)
                                       (py_strip (stdout rs)) of
                                  Some v \<Rightarrow> v | None \<Rightarrow> PNone)
                          else PNone))
           \<and> (returncode rs \<noteq> 0 \<and> startswith (stdout rs) ''ERROR:'' \<longrightarrow>
                error r = Some (py_strip (drop 6 (stdout rs)))
              \<and> function_result r = Some PNone)
           \<and> (returncode rs \<noteq> 0 \<and> \<not> startswith (stdout rs) ''ERROR:'' \<longrightarrow>
                error r = Some (''Process failed with exit code '' @ py_int_str (returncode rs)
                                @ (if stderr rs \<noteq> [] then '': '' @ stderr rs else []))
              \<and> function_result r = Some PNone))
       \<and> (\<forall>rf'. py_eval py (spawn_frame self info script input_repr rs rf') (py_strip (stdout rs))
                  = py_eval py (spawn_frame self info script input_repr rs rf) (py_strip (stdout rs))
                \<longrightarrow> fst (snd (profile_full_python py self (env\<lparr>run_full := Returned rf'\<rparr>) info files))
                      = fst (snd (profile_full_python py self env info files)))"
proof -
  let ?R = "profile_full_python py self env info files"
  let ?fr = "spawn_frame self info script input_repr rs rf"
  obtain v m where p: "parse_output py ?fr rs = Returned (v, m)"
    using parse_output_returns by blast
  note R = spawn_completed [OF assms p, where files = files]
  have zero: "m = None \<and> v = (if py_strip (stdout rs) \<noteq> [] \<and> \<not> startswith (py_strip (stdout rs)) ''ERROR:''
                          then (case py_eval py ?fr (py_strip (stdout rs)) of
                                  Some v \<Rightarrow> v | None \<Rightarrow> PNone)
                          else PNone)"
    if "returncode rs = 0"
    using p parse_output_exit_zero [OF that, of py ?fr] by simp
  have prefixed: "m = Some (py_strip (drop 6 (stdout rs))) \<and> v = PNone"
    if "returncode rs \<noteq> 0 \<and> startswith (stdout rs) ''ERROR:''"
    using p parse_output_error_line [of rs py ?fr] that by simp
  have other: "m = Some (''Process failed with exit code '' @ py_int_str (returncode rs)
                                @ (if stderr rs \<noteq> [] then '': '' @ stderr rs else []))
               \<and> v = PNone"
    if "returncode rs \<noteq> 0 \<and> \<not> startswith (stdout rs) ''ERROR:''"
    using p parse_output_exit_code [of rs py ?fr] that by simp
  have first: "\<exists>r. fst (snd ?R) = Returned r
           \<and> res_stdout r = Some (stdout rs) \<and> res_stderr r = Some (stderr rs)
           \<and> (returncode rs = 0 \<longrightarrow>
                error r = None
              \<and> function_result r
                  = Some (if py_strip (stdout rs) \<noteq> [] \<and> \<not> startswith (py_strip (stdout rs)) ''ERROR:''
                          then (case py_eval py ?fr (py_strip (stdout rs)) of
                                  Some v \<Rightarrow> v | None \<Rightarrow> PNone)
                          else PNone))
           \<and> (returncode rs \<noteq> 0 \<and> startswith (stdout rs) ''ERROR:'' \<longrightarrow>
                error r = Some (py_strip (drop 6 (stdout rs)))
              \<and> function_result r = Some PNone)
           \<and> (returncode rs \<noteq> 0 \<and> \<not> startswith (stdout rs) ''ERROR:'' \<longrightarrow>
                error r = Some (''Process failed with exit code '' @ py_int_str (returncode rs)
                                @ (if stderr rs \<noteq> [] then '': '' @ stderr rs else []))
              \<and> function_result r = Some PNone)"
    unfolding R using zero prefixed other by simp
  have second: "fst (snd (profile_full_python py self (env\<lparr>run_full := Returned rf'\<rparr>) info files))
                  = fst (snd ?R)"
    if same: "py_eval py (spawn_frame self info script input_repr rs rf') (py_strip (stdout rs))
                = py_eval py ?fr (py_strip (stdout rs))"
    for rf'
  proof -
    let ?env' = "env\<lparr>run_full := Returned rf'\<rparr>"
    have p': "parse_output py (spawn_frame self info script input_repr rs rf') rs = Returned (v, m)"
      using p parse_output_frame [OF same] by simp
    have e: "create_script ?env' = Returned script" "write_script ?env' = Returned ()"
      "run_summary ?env' = Returned rs" "run_full ?env' = Returned rf'"
      using assms by simp_all
    show ?thesis
      unfolding R spawn_completed [OF assms(1) e(1) assms(3) e(2) e(3) e(4) p', where files = files]
      by simp
  qed
  from first second show ?thesis by blast
qed

theorem outcome_read_from_summary_run_witness:
  "py_str sample_interp (get_input_for_function (init []) (name dynamic_html))
     = Returned ''{'username': 'testuser', 'random_len': 10}''
   \<and> create_script spawn_fault = Returned ''/tmp/tmpk3v9x2ab.py''
   \<and> py_repr sample_interp (get_input_for_function (init []) (name dynamic_html))
     = Returned ''{'username': 'testuser', 'random_len': 10}''
   \<and> write_script spawn_fault = Returned ()
   \<and> run_summary spawn_fault = Returned process_boom
   \<and> run_full spawn_fault = Returned process_boom
   \<and> returncode process_boom \<noteq> 0
   \<and> startswith (stdout process_boom) ''ERROR:''
   \<and> (\<exists>r. fst (snd (profile_full_python sample_interp (init []) spawn_fault dynamic_html {}))
            = Returned r
          \<and> error r = Some ''boom'' \<and> function_result r = Some PNone)"
proof -
  have c: "create_script spawn_fault = Returned ''/tmp/tmpk3v9x2ab.py''"
    and w: "write_script spawn_fault = Returned ()"
    and s: "run_summary spawn_fault = Returned process_boom"
    and f: "run_full spawn_fault = Returned process_boom"
    by (simp_all add: spawn_fault_def)
  have n: "returncode process_boom \<noteq> 0"
    by (simp add: process_boom_def)
  have e: "startswith (stdout process_boom) ''ERROR:''"
    by (simp add: process_boom_def startswith_def)
  have l: "py_strip (drop 6 (stdout process_boom)) = ''boom''"
    by code_simp
  note t = outcome_read_from_summary_run [OF sample_shown c sample_repr w s f, where files = "{}"]
  from t [THEN conjunct1] n e l
  have r: "\<exists>r. fst (snd (profile_full_python sample_interp (init []) spawn_fault dynamic_html {}))
            = Returned r
          \<and> error r = Some ''boom'' \<and> function_result r = Some PNone"
    by auto
  from sample_shown c sample_repr w s f n e r show ?thesis by (intro conjI)
qed

text \<open>
  C5 as the specification states it fails: not every spawn-mode call parses the standard
  output of the summary run. Here that run exits with 0 and prints \<open>{'result': 42}\<close>, the
  full run exceeds its sixty seconds, and the call returns the failure dictionary, which
  has no \<open>function_result\<close>.
\<close>

theorem summary_output_not_parsed_counterexample:
  "run_summary spawn_full_timeout = Returned process_42
   \<and> returncode process_42 = 0
   \<and> py_strip (stdout process_42) = ''{'result': 42}''
   \<and> fst (snd (profile_full_python sample_interp (init []) spawn_full_timeout dynamic_html {}))
       = Returned (fullpython_failure ''110.dynamic-html'' ''Full Python execution timed out''
                     (PDict [(''username'', PStr ''testuser''), (''random_len'', PInt 10)]))
   \<and> function_result (fullpython_failure ''110.dynamic-html'' ''Full Python execution timed out''
                     (PDict [(''username'', PStr ''testuser''), (''random_len'', PInt 10)])) = None"
proof -
  have c: "create_script spawn_full_timeout = Returned ''/tmp/tmpk3v9x2ab.py''"
    and w: "write_script spawn_full_timeout = Returned ()"
    and s: "run_summary spawn_full_timeout = Returned process_42"
    and f: "run_full spawn_full_timeout = Raised (TimeoutExpired ''Command timed out after 60 seconds'')"
    by (simp_all add: spawn_full_timeout_def)
  have i: "get_input_for_function (init []) (name dynamic_html)
             = PDict [(''username'', PStr ''testuser''), (''random_len'', PInt 10)]"
    by (simp add: get_input_for_function_def init_def correct_inputs_table_def dynamic_html_def)
  have n: "name dynamic_html = ''110.dynamic-html''"
    by (simp add: dynamic_html_def)
  have r: "fst (snd (profile_full_python sample_interp (init []) spawn_full_timeout dynamic_html {}))
       = Returned (fullpython_failure ''110.dynamic-html'' ''Full Python execution timed out''
                     (PDict [(''username'', PStr ''testuser''), (''random_len'', PInt 10)]))"
    unfolding spawn_full_raised [OF sample_shown c sample_repr w s f]
    by (simp add: fullpython_except_timeout i [unfolded n] n)
  have z: "returncode process_42 = 0"
    by (simp add: process_42_def)
  from s z sample_line_42 r show ?thesis
    by (simp add: fullpython_failure_fields)
qed

text \<open>
  C10. When the script was written and both runs complete, the call returns a result
  with \<open>success\<close> true. With an exit status other than 0 it carries an \<open>error\<close> and \<open>None\<close>
  as \<open>function_result\<close>; with exit status 0 and a standard output on which \<open>eval\<close>
  raises, both \<open>function_result\<close> and \<open>error\<close> are \<open>None\<close>.
\<close>

theorem completed_runs_report_success:
  assumes "py_str py (get_input_for_function self (name info)) = Returned shown"
    and "create_script env = Returned script"
    and "py_repr py (get_input_for_function self (name info)) = Returned input_repr"
    and "write_script env = Returned ()"
    and "run_summary env = Returned rs"
    and "run_full env = Returned rf"
  shows "\<exists>r. fst (snd (profile_full_python py self env info files)) = Returned r
           \<and> success r
           \<and> (returncode rs \<noteq> 0 \<longrightarrow> error r \<noteq> None \<and> function_result r = Some PNone)
           \<and> (returncode rs = 0
                \<and> py_eval py (spawn_frame self info script input_repr rs rf) (py_strip (stdout rs))
                    = None
              \<longrightarrow> function_result r = Some PNone \<and> error r = None)"
proof -
  let ?fr = "spawn_frame self info script input_repr rs rf"
  obtain v m where p: "parse_output py ?fr rs = Returned (v, m)"
    using parse_output_returns by blast
  note R = spawn_completed [OF assms p, where files = files]
  have nz: "m \<noteq> None \<and> v = PNone" if "returncode rs \<noteq> 0"
  proof (cases "startswith (stdout rs) ''ERROR:''")
    case True
    with p parse_output_error_line [OF that True, of py ?fr] show ?thesis by auto
  next
    case False
    with p parse_output_exit_code [OF that False, of py ?fr] show ?thesis by auto
  qed
  have z: "v = PNone \<and> m = None"
    if "returncode rs = 0 \<and> py_eval py ?fr (py_strip (stdout rs)) = None"
    using p parse_output_exit_zero [of rs py ?fr] that by (auto split: if_splits)
  show ?thesis
    unfolding R using nz z by simp
qed

theorem completed_runs_report_success_witness:
  "py_str sample_interp (get_input_for_function (init []) (name dynamic_html))
     = Returned ''{'username': 'testuser', 'random_len': 10}''
   \<and> create_script spawn_object = Returned ''/tmp/tmpk3v9x2ab.py''
   \<and> py_repr sample_interp (get_input_for_function (init []) (name dynamic_html))
     = Returned ''{'username': 'testuser', 'random_len': 10}''
   \<and> write_script spawn_object = Returned ()
   \<and> run_summary spawn_object = Returned process_object
   \<and> run_full spawn_object = Returned process_object
   \<and> returncode process_object = 0
   \<and> py_eval sample_interp
        (spawn_frame (init []) dynamic_html ''/tmp/tmpk3v9x2ab.py''
           ''{'username': 'testuser', 'random_len': 10}'' process_object process_object)
        (py_strip (stdout process_object)) = None
   \<and> (\<exists>r. fst (snd (profile_full_python sample_interp (init []) spawn_object dynamic_html {}))
            = Returned r
          \<and> success r \<and> function_result r = Some PNone \<and> error r = None)"
proof -
  have c: "create_script spawn_object = Returned ''/tmp/tmpk3v9x2ab.py''"
    and w: "write_script spawn_object = Returned ()"
    and s: "run_summary spawn_object = Returned process_object"
    and f: "run_full spawn_object = Returned process_object"
    by (simp_all add: spawn_object_def)
  have z: "returncode process_object = 0"
    by (simp add: process_object_def)
  have e: "py_eval sample_interp
        (spawn_frame (init []) dynamic_html ''/tmp/tmpk3v9x2ab.py''
           ''{'username': 'testuser', 'random_len': 10}'' process_object process_object)
        (py_strip (stdout process_object)) = None"
    by (simp add: sample_eval sample_line_object sample_eval_object)
  note t = completed_runs_report_success [OF sample_shown c sample_repr w s f, where files = "{}"]
  from t z e
  have r: "\<exists>r. fst (snd (profile_full_python sample_interp (init []) spawn_object dynamic_html {}))
            = Returned r
          \<and> success r \<and> function_result r = Some PNone \<and> error r = None"
    by auto
  from sample_shown c sample_repr w s f z e r show ?thesis by (intro conjI)
qed





section \<open>Properties of the returned dictionaries\<close>

text \<open>
  The two kinds of dictionary that an attach-mode call returns: the one of line 121, with
  \<open>success\<close> true, the trace file and a \<open>function_result\<close> that is \<open>None\<close> when \<open>error\<close> is
  set; and the one of line 132, with \<open>success\<close> false, an \<open>error\<close> and neither trace file
  nor \<open>function_result\<close>.
\<close>

lemma attach_returned:
  assumes "fst (snd (profile_function_in_runtime py self env info summary)) = Returned r"
  shows "if success r
         then strace_file r = Some (runtime_file_of (name info) summary)
              \<and> function_result r \<noteq> None
              \<and> (error r \<noteq> None \<longrightarrow> function_result r = Some PNone)
         else strace_file r = None \<and> function_result r = None \<and> error r \<noteq> None"
proof (cases rule: attach_paths [where py = py and self = self and info = info and env = env])
  case (print_raised e)
  from assms show ?thesis
    by (simp add: attach_print_raised [OF print_raised])
next
  case (popen_raised shown e)
  from assms show ?thesis
    by (auto simp: attach_popen_raised [OF popen_raised] except_exception_def
          runtime_failure_fields split: if_splits)
next
  case (section_left shown u called input' e)
  from assms show ?thesis
    by (simp add: attach_section_left [OF section_left])
next
  case (stopped shown u called input' fresult error_msg w)
  from assms have r: "success r" "strace_file r = Some (runtime_file_of (name info) summary)"
    "function_result r = Some fresult" "error r = error_msg"
    by (auto simp: attach_stopped [OF stopped])
  from stopped(4) have "error_msg \<noteq> None \<longrightarrow> fresult = PNone"
    by (auto dest: profiled_section_error)
  with r show ?thesis by simp
next
  case (wait_raised shown u called input' fresult error_msg e)
  from assms show ?thesis
    by (auto simp: attach_wait_raised [OF wait_raised] except_exception_def
          runtime_failure_fields split: if_splits)
qed

text \<open>The same for spawn mode: the dictionary of line 240, and those of lines 254 and 262.\<close>

lemma spawn_returned:
  assumes "fst (snd (profile_full_python py self env info files)) = Returned r"
  shows "if success r
         then strace_summary_file r = Some (summary_file_of (name info))
              \<and> strace_full_file r = Some (full_file_of (name info))
              \<and> function_result r \<noteq> None
              \<and> (error r \<noteq> None \<longrightarrow> function_result r = Some PNone)
         else strace_summary_file r = None \<and> strace_full_file r = None
              \<and> function_result r = None \<and> error r \<noteq> None"
proof (cases rule: spawn_paths [where py = py and self = self and info = info and env = env])
  case (print_raised e)
  from assms show ?thesis
    by (simp add: spawn_print_raised [OF print_raised])
next
  case (create_raised shown e)
  from assms show ?thesis
    by (simp add: spawn_create_raised [OF create_raised])
next
  case (repr_raised shown script e)
  from assms show ?thesis
    by (simp add: spawn_repr_raised [OF repr_raised])
next
  case (write_raised shown script input_repr e)
  from assms show ?thesis
    by (simp add: spawn_write_raised [OF write_raised])
next
  case (summary_raised shown script input_repr u e)
  from assms have "fullpython_except (name info) e (get_input_for_function self (name info))
                     = Returned r"
    by (simp add: spawn_summary_raised [OF summary_raised])
  from fullpython_except_returned [OF this] show ?thesis by simp
next
  case (full_raised shown script input_repr u rs e)
  from assms have "fullpython_except (name info) e (get_input_for_function self (name info))
                     = Returned r"
    by (simp add: spawn_full_raised [OF full_raised])
  from fullpython_except_returned [OF this] show ?thesis by simp
next
  case (completed shown script input_repr u rs rf fresult error_msg)
  from assms have r: "success r" "strace_summary_file r = Some (summary_file_of (name info))"
    "strace_full_file r = Some (full_file_of (name info))"
    "function_result r = Some fresult" "error r = error_msg"
    by (auto simp: spawn_completed [OF completed])
  from completed(7) have "error_msg \<noteq> None \<longrightarrow> fresult = PNone"
    by (auto dest: parse_output_error_no_value)
  with r show ?thesis by simp
qed

text \<open>
  C1, as the code has it. An attach-mode call for the workload named \<open>N\<close> that returns
  with \<open>success\<close> true records the path \<open>runtime_summary_N.txt\<close> when the granularity is
  summary and \<open>runtime_full_N.txt\<close> when it is full; a spawn-mode call that returns with
  \<open>success\<close> true records \<open>fullpython_summary_N.txt\<close> and \<open>fullpython_full_N.txt\<close>. A
  call that returns with \<open>success\<close> false records no path.
\<close>

theorem artifact_names:
  "(\<forall>r. fst (snd (profile_function_in_runtime py self env info summary)) = Returned r \<longrightarrow>
        strace_file r
          = (if success r
             then Some (''runtime_'' @ (if summary then ''summary'' else ''full'') @ ''_''
                        @ name info @ ''.txt'')
             else None))
   \<and> (\<forall>r. fst (snd (profile_full_python py self senv info files)) = Returned r \<longrightarrow>
        strace_summary_file r
          = (if success r then Some (''fullpython_summary_'' @ name info @ ''.txt'') else None)
      \<and> strace_full_file r
          = (if success r then Some (''fullpython_full_'' @ name info @ ''.txt'') else None))"
proof -
  have a: "strace_file r
          = (if success r
             then Some (''runtime_'' @ (if summary then ''summary'' else ''full'') @ ''_''
                        @ name info @ ''.txt'')
             else None)"
    if "fst (snd (profile_function_in_runtime py self env info summary)) = Returned r" for r
    using attach_returned [OF that] by (simp add: runtime_file_of_def split: if_splits)
  have b: "strace_summary_file r
          = (if success r then Some (''fullpython_summary_'' @ name info @ ''.txt'') else None)
      \<and> strace_full_file r
          = (if success r then Some (''fullpython_full_'' @ name info @ ''.txt'') else None)"
    if "fst (snd (profile_full_python py self senv info files)) = Returned r" for r
    using spawn_returned [OF that]
    by (simp add: summary_file_of_def full_file_of_def split: if_splits)
  from a b show ?thesis by blast
qed

text \<open>The sample attach-mode call that succeeds, and the sample spawn-mode call that times out.\<close>

lemma sample_attach_ok:
  "fst (snd (profile_function_in_runtime sample_interp (init []) env_ok dynamic_html summary))
     = Returned
         \<lparr>function_name = ''110.dynamic-html'',
          profiling_mode = ''runtime_'' @ mode_str_of summary,
          success = True, function_result = Some (PDict [(''result'', PInt 42)]),
          error = None,
          input_data = PDict [(''username'', PStr ''testuser''), (''random_len'', PInt 10)],
          strace_file = Some (runtime_file_of ''110.dynamic-html'' summary),
          strace_summary_file = None, strace_full_file = None,
          res_stdout = None, res_stderr = None\<rparr>"
proof -
  have p: "popen env_ok = Returned ()"
    and w: "sigint_wait env_ok = Returned ()"
    by (simp_all add: env_ok_def)
  have i: "get_input_for_function (init []) (name dynamic_html)
             = PDict [(''username'', PStr ''testuser''), (''random_len'', PInt 10)]"
    by (simp add: get_input_for_function_def init_def correct_inputs_table_def dynamic_html_def)
  have l: "load_and_call env_ok (function_path dynamic_html)
             (get_input_for_function (init []) (name dynamic_html))
           = (Returned (PDict [(''result'', PInt 42)]),
              PDict [(''username'', PStr ''testuser''), (''random_len'', PInt 10)])"
    by (simp add: env_ok_def call_returns_42_def i)
  have s: "profiled_section (Returned (PDict [(''result'', PInt 42)]))
             = Returned (PDict [(''result'', PInt 42)], None)"
    by (simp add: profiled_section_def)
  show ?thesis
    unfolding attach_stopped [OF sample_shown p l s w]
    by (simp add: dynamic_html_def)
qed

lemma sample_spawn_timeout:
  "fst (snd (profile_full_python sample_interp (init []) spawn_timeout dynamic_html {}))
     = Returned (fullpython_failure ''110.dynamic-html'' ''Full Python execution timed out''
                   (PDict [(''username'', PStr ''testuser''), (''random_len'', PInt 10)]))"
proof -
  have c: "create_script spawn_timeout = Returned ''/tmp/tmpk3v9x2ab.py''"
    and w: "write_script spawn_timeout = Returned ()"
    and s: "run_summary spawn_timeout = Raised (TimeoutExpired ''Command timed out after 60 seconds'')"
    by (simp_all add: spawn_timeout_def)
  have n: "name dynamic_html = ''110.dynamic-html''"
    by (simp add: dynamic_html_def)
  have i: "get_input_for_function (init []) ''110.dynamic-html''
             = PDict [(''username'', PStr ''testuser''), (''random_len'', PInt 10)]"
    by (simp add: get_input_for_function_def init_def correct_inputs_table_def)
  show ?thesis
    unfolding spawn_summary_raised [OF sample_shown c sample_repr w s]
    by (simp add: fullpython_except_timeout n i)
qed

theorem artifact_names_witness:
  "(\<exists>r. fst (snd (profile_function_in_runtime sample_interp (init []) env_ok dynamic_html False))
           = Returned r
         \<and> success r \<and> strace_file r = Some ''runtime_full_110.dynamic-html.txt'')
   \<and> (\<exists>r. fst (snd (profile_full_python sample_interp (init []) spawn_timeout dynamic_html {}))
           = Returned r
         \<and> \<not> success r \<and> strace_summary_file r = None \<and> strace_full_file r = None)"
proof -
  note t = artifact_names [of sample_interp "init []" env_ok dynamic_html False spawn_timeout "{}"]
  have n: "name dynamic_html = ''110.dynamic-html''"
    by (simp add: dynamic_html_def)
  from sample_attach_ok [of False] obtain r where
    r: "fst (snd (profile_function_in_runtime sample_interp (init []) env_ok dynamic_html False))
          = Returned r" and sr: "success r"
    by simp
  from t [THEN conjunct1, rule_format, OF r] sr n
  have "strace_file r = Some ''runtime_full_110.dynamic-html.txt''"
    by simp
  with r sr have a: "\<exists>r. fst (snd (profile_function_in_runtime sample_interp (init []) env_ok
                                     dynamic_html False)) = Returned r
         \<and> success r \<and> strace_file r = Some ''runtime_full_110.dynamic-html.txt''"
    by blast
  from sample_spawn_timeout obtain q where
    q: "fst (snd (profile_full_python sample_interp (init []) spawn_timeout dynamic_html {}))
          = Returned q" and sq: "\<not> success q"
    by (simp add: fullpython_failure_fields)
  from t [THEN conjunct2, rule_format, OF q] sq
  have "strace_summary_file q = None \<and> strace_full_file q = None"
    by simp
  with q sq have b: "\<exists>r. fst (snd (profile_full_python sample_interp (init []) spawn_timeout
                                     dynamic_html {})) = Returned r
         \<and> \<not> success r \<and> strace_summary_file r = None \<and> strace_full_file r = None"
    by blast
  from a b show ?thesis by (rule conjI)
qed

text \<open>
  C1 as the specification states it fails: the attach-mode paths start with \<open>runtime_\<close>,
  not with \<open>attach_\<close>.
\<close>

theorem artifact_names_counterexample:
  "fst (snd (profile_function_in_runtime sample_interp (init []) env_ok dynamic_html True))
     = Returned
         \<lparr>function_name = ''110.dynamic-html'', profiling_mode = ''runtime_summary'',
          success = True, function_result = Some (PDict [(''result'', PInt 42)]),
          error = None,
          input_data = PDict [(''username'', PStr ''testuser''), (''random_len'', PInt 10)],
          strace_file = Some ''runtime_summary_110.dynamic-html.txt'',
          strace_summary_file = None, strace_full_file = None,
          res_stdout = None, res_stderr = None\<rparr>
   \<and> Some ''runtime_summary_110.dynamic-html.txt'' \<noteq> Some ''attach_summary_110.dynamic-html.txt''
   \<and> fst (snd (profile_function_in_runtime sample_interp (init []) env_ok dynamic_html False))
     = Returned
         \<lparr>function_name = ''110.dynamic-html'', profiling_mode = ''runtime_full'',
          success = True, function_result = Some (PDict [(''result'', PInt 42)]),
          error = None,
          input_data = PDict [(''username'', PStr ''testuser''), (''random_len'', PInt 10)],
          strace_file = Some ''runtime_full_110.dynamic-html.txt'',
          strace_summary_file = None, strace_full_file = None,
          res_stdout = None, res_stderr = None\<rparr>
   \<and> Some ''runtime_full_110.dynamic-html.txt'' \<noteq> Some ''attach_full_110.dynamic-html.txt''"
  by (simp add: sample_attach_ok mode_str_of_def runtime_file_of_def)

text \<open>
  C9. In the result that a call in either mode returns, an \<open>error\<close> that is set comes
  with no returned value (\<open>function_result\<close> absent or \<open>None\<close>), and a returned value
  comes with no \<open>error\<close> and with \<open>success\<close> true. A call that timed out (the collector's
  stop in attach mode, after the interrupt was sent; a run in spawn mode, after it was
  started) returns a result with \<open>success\<close> false and no \<open>function_result\<close>, and in spawn
  mode its \<open>error\<close> is the timeout text.
\<close>

theorem outcome_exclusive:
  "(\<forall>r. fst (snd (profile_function_in_runtime py self env info summary)) = Returned r \<longrightarrow>
        (error r \<noteq> None \<longrightarrow> function_result r \<in> {None, Some PNone})
      \<and> (\<forall>v. function_result r = Some v \<and> v \<noteq> PNone \<longrightarrow> error r = None \<and> success r))
   \<and> (SendSigint \<in> set (fst (profile_function_in_runtime py self env info summary))
        \<and> (\<exists>m. sigint_wait env = Raised (TimeoutExpired m)) \<longrightarrow>
        (\<exists>r. fst (snd (profile_function_in_runtime py self env info summary)) = Returned r
           \<and> function_result r = None \<and> \<not> success r))
   \<and> (\<forall>r. fst (snd (profile_full_python py self senv info files)) = Returned r \<longrightarrow>
        (error r \<noteq> None \<longrightarrow> function_result r \<in> {None, Some PNone})
      \<and> (\<forall>v. function_result r = Some v \<and> v \<noteq> PNone \<longrightarrow> error r = None \<and> success r))
   \<and> ((\<exists>cmd t. Run cmd t \<in> set (fst (profile_full_python py self senv info files)))
        \<and> ((\<exists>m. run_summary senv = Raised (TimeoutExpired m))
           \<or> (\<exists>rs m. run_summary senv = Returned rs \<and> run_full senv = Raised (TimeoutExpired m)))
        \<longrightarrow>
        (\<exists>r. fst (snd (profile_full_python py self senv info files)) = Returned r
           \<and> function_result r = None
           \<and> error r = Some ''Full Python execution timed out''
           \<and> \<not> success r))"
proof -
  let ?A = "profile_function_in_runtime py self env info summary"
  let ?S = "profile_full_python py self senv info files"
  have a1: "(error r \<noteq> None \<longrightarrow> function_result r \<in> {None, Some PNone})
      \<and> (\<forall>v. function_result r = Some v \<and> v \<noteq> PNone \<longrightarrow> error r = None \<and> success r)"
    if "fst (snd ?A) = Returned r" for r
    using attach_returned [OF that] by (cases "success r") auto
  have a2: "\<exists>r. fst (snd ?A) = Returned r \<and> function_result r = None \<and> \<not> success r"
    if sent: "SendSigint \<in> set (fst ?A)" and timed: "\<exists>m. sigint_wait env = Raised (TimeoutExpired m)"
  proof -
    from sent obtain shown u called input' fresult error_msg where p:
      "py_str py (get_input_for_function self (name info)) = Returned shown"
      "popen env = Returned u"
      "load_and_call env (function_path info) (get_input_for_function self (name info))
         = (called, input')"
      "profiled_section called = Returned (fresult, error_msg)"
      by (rule attach_sigint_sent)
    from timed obtain m where m: "sigint_wait env = Raised (TimeoutExpired m)" by blast
    show ?thesis
      unfolding attach_wait_raised [OF p m, where summary = summary]
      by (simp add: except_exception_def runtime_failure_fields)
  qed
  have s1: "(error r \<noteq> None \<longrightarrow> function_result r \<in> {None, Some PNone})
      \<and> (\<forall>v. function_result r = Some v \<and> v \<noteq> PNone \<longrightarrow> error r = None \<and> success r)"
    if "fst (snd ?S) = Returned r" for r
    using spawn_returned [OF that] by (cases "success r") auto
  have s2: "\<exists>r. fst (snd ?S) = Returned r \<and> function_result r = None
           \<and> error r = Some ''Full Python execution timed out'' \<and> \<not> success r"
    if started: "\<exists>cmd t. Run cmd t \<in> set (fst ?S)"
      and timed: "(\<exists>m. run_summary senv = Raised (TimeoutExpired m))
           \<or> (\<exists>rs m. run_summary senv = Returned rs \<and> run_full senv = Raised (TimeoutExpired m))"
  proof -
    from started obtain cmd t where "Run cmd t \<in> set (fst ?S)" by blast
    then obtain shown script input_repr u where p:
      "py_str py (get_input_for_function self (name info)) = Returned shown"
      "create_script senv = Returned script"
      "py_repr py (get_input_for_function self (name info)) = Returned input_repr"
      "write_script senv = Returned u"
      by (rule spawn_run_started)
    show ?thesis
      using spawn_timed_out [OF p timed, where files = files]
      by (simp add: fullpython_failure_fields)
  qed
  from a1 a2 s1 s2 show ?thesis by blast
qed

theorem outcome_exclusive_witness:
  "(\<exists>r. fst (snd (profile_function_in_runtime sample_interp (init []) env_fault dynamic_html True))
           = Returned r
         \<and> error r = Some ''boom'' \<and> function_result r \<in> {None, Some PNone})
   \<and> (\<exists>r. fst (snd (profile_full_python sample_interp (init []) spawn_timeout dynamic_html {}))
           = Returned r
         \<and> error r = Some ''Full Python execution timed out''
         \<and> function_result r \<in> {None, Some PNone})"
proof -
  note t = outcome_exclusive [of sample_interp "init []" env_fault dynamic_html True
             spawn_timeout "{}"]
  have p: "popen env_fault = Returned ()"
    and w: "sigint_wait env_fault = Returned ()"
    by (simp_all add: env_fault_def)
  obtain input' where l: "load_and_call env_fault (function_path dynamic_html)
             (get_input_for_function (init []) (name dynamic_html))
           = (Raised (Exception ''boom''), input')"
    by (simp add: env_fault_def call_raises_boom_def)
  have s: "profiled_section (Raised (Exception ''boom'')) = Returned (PNone, Some ''boom'')"
    by (simp add: profiled_section_def)
  from attach_stopped [OF sample_shown p l s w, where summary = True] obtain r where
    r: "fst (snd (profile_function_in_runtime sample_interp (init []) env_fault dynamic_html True))
          = Returned r" and er: "error r = Some ''boom''"
    by simp
  from t [THEN conjunct1, rule_format, OF r, THEN conjunct1] er
  have "function_result r \<in> {None, Some PNone}"
    by simp
  with r er have a: "\<exists>r. fst (snd (profile_function_in_runtime sample_interp (init []) env_fault
                                     dynamic_html True)) = Returned r
         \<and> error r = Some ''boom'' \<and> function_result r \<in> {None, Some PNone}"
    by blast
  from sample_spawn_timeout obtain q where
    q: "fst (snd (profile_full_python sample_interp (init []) spawn_timeout dynamic_html {}))
          = Returned q" and eq: "error q = Some ''Full Python execution timed out''"
    by (simp add: fullpython_failure_fields)
  from t [THEN conjunct2, THEN conjunct2, THEN conjunct1, rule_format, OF q, THEN conjunct1] eq
  have "function_result q \<in> {None, Some PNone}"
    by simp
  with q eq have b: "\<exists>r. fst (snd (profile_full_python sample_interp (init []) spawn_timeout
                                     dynamic_html {})) = Returned r
         \<and> error r = Some ''Full Python execution timed out''
         \<and> function_result r \<in> {None, Some PNone}"
    by blast
  from a b show ?thesis by (rule conjI)
qed

end
